theory Spec2Isabelle
  imports Main "HOL-Library.Sublist"
begin

section \<open>Errors\<close>

text \<open>
  The source raises two kinds of exception: the schema library's validation error, thrown
  by \<^verbatim>\<open>Schema.parse\<close>, and plain \<^verbatim>\<open>Error\<close> objects built from a message.
  A validation error lists the parts of the input that were rejected.
\<close>

datatype zod_issue = InvalidUrl | InvalidProtocol | InvalidQualifier

datatype error = ZodError "zod_issue list" | Error string

section \<open>Reference resolver\<close>

subsection \<open>String splitting\<close>

text \<open>
  \<^verbatim>\<open>String.prototype.split(sep)\<close> for a non-empty separator: the pieces between the
  occurrences of \<open>sep\<close>, scanned left to right; a string without the separator is the
  only piece. \<open>acc\<close> is the piece being read.
\<close>

function split_from :: "string \<Rightarrow> string \<Rightarrow> string \<Rightarrow> string list" where
  "split_from sep acc [] = [acc]"
| "split_from sep acc (c # cs) =
     (if sep \<noteq> [] \<and> prefix sep (c # cs)
      then acc # split_from sep [] (drop (length sep) (c # cs))
      else split_from sep (acc @ [c]) cs)"
  by pat_completeness auto
termination
  by (relation "measure (\<lambda>(sep, acc, s). length s)") (auto simp: neq_Nil_conv)

definition split :: "string \<Rightarrow> string \<Rightarrow> string list" where
  "split sep s = split_from sep [] s"

subsection \<open>ConfigUriSchema\<close>

definition protocols :: "string list" where
  "protocols = [''config'', ''file'', ''branch'', ''http'', ''https'', ''glfs'']"

text \<open>
  \<^verbatim>\<open>Zod.string().url().transform(...)\<close>. The URL check is the schema library's, a
  parameter \<open>isUrl\<close> here. The transform splits at \<^verbatim>\<open>'://'\<close> and validates
  \<^verbatim>\<open>{protocol: parts[0], qualifier: parts[1]}\<close>: the protocol against the six
  literals, the qualifier as a string (\<^verbatim>\<open>parts[1]\<close> is undefined when the split
  gives one piece). Both issues are reported when both fail. A split has at least one
  piece, so the first case below is never taken.
\<close>

definition ConfigUriSchema :: "(string \<Rightarrow> bool) \<Rightarrow> string \<Rightarrow> error + (string \<times> string)" where
  "ConfigUriSchema isUrl v =
     (if \<not> isUrl v then Inl (ZodError [InvalidUrl])
      else
        (case split ''://'' v of
           [] \<Rightarrow> Inl (ZodError [InvalidProtocol, InvalidQualifier])
         | [p] \<Rightarrow>
             (if p \<in> set protocols then Inl (ZodError [InvalidQualifier])
              else Inl (ZodError [InvalidProtocol, InvalidQualifier]))
         | p # q # rest \<Rightarrow>
             (if p \<in> set protocols then Inr (p, q)
              else Inl (ZodError [InvalidProtocol]))))"

subsection \<open>parseConfigReference\<close>

datatype ConfigReference =
    ConfigRef
  | FileRef (ref_path: string)
  | BranchRef (ref_branchName: string)
  | HttpRef (ref_protocol: string) (ref_url: string)
  | GlfsRef (ref_hostname: "string option") (ref_namespace: string) (ref_name: string)
      (ref_support: "string option")

definition parseConfigReference :: "(string \<Rightarrow> bool) \<Rightarrow> string \<Rightarrow> error + ConfigReference" where
  "parseConfigReference isUrl uri =
     (case ConfigUriSchema isUrl uri of
        Inl e \<Rightarrow> Inl e
      | Inr (protocol, qualifier) \<Rightarrow>
          if protocol = ''config'' then Inr ConfigRef
          else if protocol = ''file'' then Inr (FileRef qualifier)
          else if protocol = ''branch'' then Inr (BranchRef qualifier)
          else if protocol = ''http'' \<or> protocol = ''https'' then Inr (HttpRef protocol qualifier)
          else if protocol = ''glfs'' then
            (let parts = split ''/'' qualifier in
             if length parts = 4
               then Inr (GlfsRef (Some (parts ! 0)) (parts ! 1) (parts ! 2) (Some (parts ! 3)))
             else if length parts = 3
               then Inr (GlfsRef (Some (parts ! 0)) (parts ! 1) (parts ! 2) None)
             else if length parts = 2
               then Inr (GlfsRef None (parts ! 0) (parts ! 1) None)
             else Inl (Error (''GLFS Uri invalid ['' @ uri @ '']'')))
          else Inl (Error (''Unsupported config protocol '' @ protocol)))"

section \<open>Entity model\<close>

text \<open>
  The classes of the newest schema version. A field declared with \<^verbatim>\<open>?\<close> is an
  option; a \<^verbatim>\<open>Record<string, _>\<close> is the list of its entries in the object's own
  order. Every record's fields carry the entity's name as a prefix, the Config's own
  fields keep the source's names.
\<close>

datatype json =
    JNull
  | JBool bool
  | JNum int
  | JStr string
  | JArr "json list"
  | JObj "(string \<times> json) list"

type_synonym jsrecord = "(string \<times> json) list"

datatype dependency = DepString string | DepRecord "(string \<times> string) list"

record Upstream =
  upstream_name :: string
  upstream_url :: string

record TaggingBase =
  tagging_name :: string
  tagging_annotation :: "string option"

record MessageTemplateBase =
  messageTemplate_name :: string
  messageTemplate_message :: string

record TagTemplateBase =
  tagTemplate_name :: string
  tagTemplate_tag :: string
  tagTemplate_annotation :: "string option"

record IntegrationBase =
  integration_plugin :: string
  integration_options :: jsrecord

record SubmoduleBase =
  submodule_name :: string
  submodule_path :: string
  submodule_url :: "string option"
  submodule_tags :: "string list"
  submodule_labels :: jsrecord
  submodule_annotations :: jsrecord
  submodule_shadow :: "bool option"

record FeatureBase =
  feature_name :: string
  feature_branchName :: string
  feature_sourceSha :: string
  feature_upstream :: "string option"
  feature_version :: "string option"
  feature_tags :: "TaggingBase list"
  feature_shadow :: "bool option"

record ReleaseBase =
  release_name :: string
  release_branchName :: string
  release_sourceSha :: string
  release_version :: "string option"
  release_upstream :: "string option"
  release_intermediate :: bool
  release_tags :: "TaggingBase list"
  release_shadow :: "bool option"

record HotfixBase =
  hotfix_name :: string
  hotfix_branchName :: string
  hotfix_sourceSha :: string
  hotfix_version :: "string option"
  hotfix_upstream :: "string option"
  hotfix_intermediate :: bool
  hotfix_tags :: "TaggingBase list"
  hotfix_shadow :: "bool option"

record SupportBase =
  support_name :: string
  support_masterBranchName :: string
  support_developBranchName :: string
  support_sourceSha :: string
  support_developVersion :: "string option"
  support_masterVersion :: "string option"
  support_upstream :: "string option"
  support_features :: "FeatureBase list"
  support_releases :: "ReleaseBase list"
  support_hotfixes :: "HotfixBase list"

record ConfigBase =
  apiVersion :: "string option"
  "identifier" :: string
  managed :: bool
  developVersion :: "string option"
  masterVersion :: "string option"
  upstreams :: "Upstream list"
  submodules :: "SubmoduleBase list"
  features :: "FeatureBase list"
  releases :: "ReleaseBase list"
  hotfixes :: "HotfixBase list"
  supports :: "SupportBase list"
  included :: "string list"
  excluded :: "string list"
  featureMessageTemplate :: "string option"
  releaseMessageTemplate :: "string option"
  hotfixMessageTemplate :: "string option"
  releaseTagTemplate :: "string option"
  hotfixTagTemplate :: "string option"
  tags :: "string list"
  integrations :: "IntegrationBase list"
  commitMessageTemplates :: "MessageTemplateBase list"
  tagTemplates :: "TagTemplateBase list"
  masterBranchName :: "string option"
  developBranchName :: "string option"
  dependencies :: "dependency list option"
  labels :: jsrecord
  annotations :: jsrecord

section \<open>Hash engine\<close>

text \<open>
  A \<^verbatim>\<open>Crypto.Hash\<close> object is the bytes fed to it so far: \<^verbatim>\<open>hash.update(s)\<close>
  appends the bytes of \<open>s\<close>, and the digest is a function of the algorithm, the text
  encoding and these bytes, the parameter \<open>crypto\<close> of \<open>calculateHash\<close>.
  \<^verbatim>\<open>JSON.stringify\<close> is the parameter \<open>stringify\<close>.
\<close>

type_synonym Hash = string

definition createHash :: Hash where
  "createHash = []"

definition update :: "string \<Rightarrow> Hash \<Rightarrow> Hash" where
  "update s h = h @ s"

text \<open>
  \<^verbatim>\<open>if (x) hash.update(x)\<close> and \<^verbatim>\<open>x && hash.update(x)\<close> for an optional string
  \<open>x\<close>: undefined and the empty string are falsy.
\<close>

definition update_truthy :: "string option \<Rightarrow> Hash \<Rightarrow> Hash" where
  "update_truthy x h = (case x of None \<Rightarrow> h | Some s \<Rightarrow> if s = [] then h else update s h)"

text \<open>\<^verbatim>\<open>!i.shadow\<close> for an optional boolean: true unless the flag is \<^verbatim>\<open>true\<close>.\<close>

definition not_flag :: "bool option \<Rightarrow> bool" where
  "not_flag b = (b \<noteq> Some True)"

text \<open>\<^verbatim>\<open>xs ?? []\<close> for an optional list.\<close>

definition list_or_empty :: "'a list option \<Rightarrow> 'a list" where
  "list_or_empty xs = (case xs of None \<Rightarrow> [] | Some ys \<Rightarrow> ys)"

definition json_of_dependency :: "dependency \<Rightarrow> json" where
  "json_of_dependency d =
     (case d of DepString s \<Rightarrow> JStr s | DepRecord m \<Rightarrow> JObj (map (\<lambda>(k, v). (k, JStr v)) m))"

definition bool_toString :: "bool \<Rightarrow> string" where
  "bool_toString b = (if b then ''true'' else ''false'')"

definition TaggingBase_updateHash :: "TaggingBase \<Rightarrow> Hash \<Rightarrow> Hash" where
  "TaggingBase_updateHash t h0 =
     (let h = update (tagging_name t) h0;
          h = update_truthy (tagging_annotation t) h
      in h)"

definition MessageTemplateBase_updateHash :: "MessageTemplateBase \<Rightarrow> Hash \<Rightarrow> Hash" where
  "MessageTemplateBase_updateHash t h0 =
     (let h = update (messageTemplate_name t) h0;
          h = update (messageTemplate_message t) h
      in h)"

definition TagTemplateBase_updateHash :: "TagTemplateBase \<Rightarrow> Hash \<Rightarrow> Hash" where
  "TagTemplateBase_updateHash t h0 =
     (let h = update (tagTemplate_name t) h0;
          h = update (tagTemplate_tag t) h;
          h = update_truthy (tagTemplate_annotation t) h
      in h)"

definition IntegrationBase_updateHash :: "(json \<Rightarrow> string) \<Rightarrow> IntegrationBase \<Rightarrow> Hash \<Rightarrow> Hash" where
  "IntegrationBase_updateHash stringify i h0 =
     (let h = update (integration_plugin i) h0;
          h = update (stringify (JObj (integration_options i))) h
      in h)"

definition SubmoduleBase_updateHash :: "(json \<Rightarrow> string) \<Rightarrow> SubmoduleBase \<Rightarrow> Hash \<Rightarrow> Hash" where
  "SubmoduleBase_updateHash stringify s h0 =
     (let h = update (submodule_name s) h0;
          h = update (submodule_path s) h;
          h = update_truthy (submodule_url s) h;
          h = fold update (submodule_tags s) h;
          h = (if submodule_labels s \<noteq> [] then update (stringify (JObj (submodule_labels s))) h else h);
          h = (if submodule_annotations s \<noteq> []
               then update (stringify (JObj (submodule_annotations s))) h else h)
      in h)"

definition FeatureBase_updateHash :: "FeatureBase \<Rightarrow> Hash \<Rightarrow> Hash" where
  "FeatureBase_updateHash f h0 =
     (let h = update (feature_name f) h0;
          h = update (feature_branchName f) h;
          h = update (feature_sourceSha f) h;
          h = update_truthy (feature_version f) h;
          h = update_truthy (feature_upstream f) h;
          h = fold TaggingBase_updateHash (feature_tags f) h
      in h)"

definition ReleaseBase_updateHash :: "ReleaseBase \<Rightarrow> Hash \<Rightarrow> Hash" where
  "ReleaseBase_updateHash r h0 =
     (let h = update (release_name r) h0;
          h = update (release_branchName r) h;
          h = update (release_sourceSha r) h;
          h = update_truthy (release_version r) h;
          h = update_truthy (release_upstream r) h;
          h = update (bool_toString (release_intermediate r)) h;
          h = fold TaggingBase_updateHash (release_tags r) h
      in h)"

definition HotfixBase_updateHash :: "HotfixBase \<Rightarrow> Hash \<Rightarrow> Hash" where
  "HotfixBase_updateHash x h0 =
     (let h = update (hotfix_name x) h0;
          h = update (hotfix_branchName x) h;
          h = update (hotfix_sourceSha x) h;
          h = update_truthy (hotfix_version x) h;
          h = update_truthy (hotfix_upstream x) h;
          h = update (bool_toString (hotfix_intermediate x)) h;
          h = fold TaggingBase_updateHash (hotfix_tags x) h
      in h)"

definition SupportBase_updateHash :: "SupportBase \<Rightarrow> Hash \<Rightarrow> Hash" where
  "SupportBase_updateHash s h0 =
     (let h = update (support_name s) h0;
          h = update (support_masterBranchName s) h;
          h = update (support_developBranchName s) h;
          h = update (support_sourceSha s) h;
          h = update_truthy (support_developVersion s) h;
          h = update_truthy (support_masterVersion s) h;
          h = update_truthy (support_upstream s) h;
          h = fold FeatureBase_updateHash
                (filter (\<lambda>i. not_flag (feature_shadow i)) (support_features s)) h;
          h = fold ReleaseBase_updateHash
                (filter (\<lambda>i. not_flag (release_shadow i)) (support_releases s)) h;
          h = fold HotfixBase_updateHash
                (filter (\<lambda>i. not_flag (hotfix_shadow i)) (support_hotfixes s)) h
      in h)"

definition ConfigBase_updateHash :: "(json \<Rightarrow> string) \<Rightarrow> ConfigBase \<Rightarrow> Hash \<Rightarrow> Hash" where
  "ConfigBase_updateHash stringify c h0 =
     (let h = update_truthy (apiVersion c) h0;
          h = update (identifier c) h;
          h = (if \<not> managed c then update ''unmanaged'' h else h);
          h = update_truthy (developVersion c) h;
          h = update_truthy (masterVersion c) h;
          h = fold (\<lambda>upstream h. update (upstream_url upstream) (update (upstream_name upstream) h))
                (upstreams c) h;
          h = fold update (included c) h;
          h = fold update (excluded c) h;
          h = fold (SubmoduleBase_updateHash stringify)
                (filter (\<lambda>i. not_flag (submodule_shadow i)) (submodules c)) h;
          h = fold FeatureBase_updateHash
                (filter (\<lambda>i. not_flag (feature_shadow i)) (features c)) h;
          h = fold ReleaseBase_updateHash
                (filter (\<lambda>i. not_flag (release_shadow i)) (releases c)) h;
          h = fold HotfixBase_updateHash
                (filter (\<lambda>i. not_flag (hotfix_shadow i)) (hotfixes c)) h;
          h = fold SupportBase_updateHash (supports c) h;
          h = update_truthy (featureMessageTemplate c) h;
          h = update_truthy (releaseMessageTemplate c) h;
          h = update_truthy (hotfixMessageTemplate c) h;
          h = update_truthy (releaseTagTemplate c) h;
          h = update_truthy (hotfixTagTemplate c) h;
          h = fold update (tags c) h;
          h = fold (IntegrationBase_updateHash stringify) (integrations c) h;
          h = fold MessageTemplateBase_updateHash (commitMessageTemplates c) h;
          h = fold TagTemplateBase_updateHash (tagTemplates c) h;
          h = update_truthy (masterBranchName c) h;
          h = update_truthy (developBranchName c) h;
          h = fold (\<lambda>dependency. update (stringify (json_of_dependency dependency)))
                (list_or_empty (dependencies c)) h;
          h = (if labels c \<noteq> [] then update (stringify (JObj (labels c))) h else h);
          h = (if annotations c \<noteq> [] then update (stringify (JObj (annotations c))) h else h)
      in h)"

text \<open>
  \<^verbatim>\<open>calculateHash({algorithm = 'sha256', encoding = 'hex'})\<close>: a fresh hash object,
  the fold, the digest. An argument left out is \<open>None\<close>.
\<close>

definition calculateHash ::
  "(string \<Rightarrow> string \<Rightarrow> string \<Rightarrow> string) \<Rightarrow> (json \<Rightarrow> string) \<Rightarrow>
   string option \<Rightarrow> string option \<Rightarrow> ConfigBase \<Rightarrow> string" where
  "calculateHash crypto stringify algorithm encoding c =
     (let alg = (case algorithm of None \<Rightarrow> ''sha256'' | Some a \<Rightarrow> a);
          enc = (case encoding of None \<Rightarrow> ''hex'' | Some e \<Rightarrow> e);
          hash = ConfigBase_updateHash stringify c createHash
      in crypto alg enc hash)"

subsection \<open>Hash objects in a store\<close>

text \<open>
  \<^verbatim>\<open>calculateHash\<close> creates its hash object and \<^verbatim>\<open>updateHash\<close> mutates the object
  it is handed. To say what a call owes to the hash objects that exist already, the objects
  are kept in a store, in the order of their creation, and a reference is an index:
  \<^verbatim>\<open>Crypto.createHash\<close> adds a fresh object, \<^verbatim>\<open>this.updateHash(hash)\<close> changes the
  object at \<open>hash\<close> and no other, \<^verbatim>\<open>hash.digest\<close> reads it. A call returns the digest
  and the store it leaves.
\<close>

type_synonym store = "Hash list"

definition createHash_in :: "store \<Rightarrow> nat \<times> store" where
  "createHash_in st = (length st, st @ [createHash])"

definition updateHash_in :: "(json \<Rightarrow> string) \<Rightarrow> ConfigBase \<Rightarrow> nat \<Rightarrow> store \<Rightarrow> store" where
  "updateHash_in stringify c hash st =
     (if hash < length st then st[hash := ConfigBase_updateHash stringify c (st ! hash)] else st)"

definition calculateHash_in ::
  "(string \<Rightarrow> string \<Rightarrow> string \<Rightarrow> string) \<Rightarrow> (json \<Rightarrow> string) \<Rightarrow>
   string option \<Rightarrow> string option \<Rightarrow> ConfigBase \<Rightarrow> store \<Rightarrow> string \<times> store" where
  "calculateHash_in crypto stringify algorithm encoding c st =
     (let alg = (case algorithm of None \<Rightarrow> ''sha256'' | Some a \<Rightarrow> a);
          enc = (case encoding of None \<Rightarrow> ''hex'' | Some e \<Rightarrow> e);
          (hash, st1) = createHash_in st;
          st2 = updateHash_in stringify c hash st1
      in (crypto alg enc (st2 ! hash), st2))"

section \<open>Documents\<close>

text \<open>
  The document shapes of the schema declarations (\<^verbatim>\<open>ConfigSchema\<close> and the schemas
  it is built from): an optional key is an option, absent when \<^verbatim>\<open>undefined\<close>.
  Upstream remotes have the same shape in documents and trees.
\<close>

record ConfigTaggingSchema =
  doc_tagging_name :: string
  doc_tagging_annotation :: "string option"

record ConfigMessageTemplate =
  doc_messageTemplate_name :: string
  doc_messageTemplate_message :: string

record ConfigTagTemplate =
  doc_tagTemplate_name :: string
  doc_tagTemplate_tag :: string
  doc_tagTemplate_annotation :: "string option"

record ConfigIntegrationSchema =
  doc_integration_plugin :: string
  doc_integration_options :: "jsrecord option"

record ConfigSubmoduleSchema =
  doc_submodule_name :: string
  doc_submodule_path :: string
  doc_submodule_url :: "string option"
  doc_submodule_tags :: "string list option"
  doc_submodule_labels :: "jsrecord option"
  doc_submodule_annotations :: "jsrecord option"

record ConfigFeatureSchema =
  doc_feature_name :: string
  doc_feature_branchName :: string
  doc_feature_sourceSha :: string
  doc_feature_version :: "string option"
  doc_feature_upstream :: "string option"
  doc_feature_tags :: "ConfigTaggingSchema list option"

record ConfigReleaseSchema =
  doc_release_name :: string
  doc_release_branchName :: string
  doc_release_sourceSha :: string
  doc_release_version :: "string option"
  doc_release_upstream :: "string option"
  doc_release_intermediate :: "bool option"
  doc_release_tags :: "ConfigTaggingSchema list option"

record ConfigHotfixSchema =
  doc_hotfix_name :: string
  doc_hotfix_branchName :: string
  doc_hotfix_sourceSha :: string
  doc_hotfix_version :: "string option"
  doc_hotfix_upstream :: "string option"
  doc_hotfix_intermediate :: "bool option"
  doc_hotfix_tags :: "ConfigTaggingSchema list option"

record ConfigSupportSchema =
  doc_support_name :: string
  doc_support_masterBranchName :: string
  doc_support_developBranchName :: string
  doc_support_sourceSha :: string
  doc_support_developVersion :: "string option"
  doc_support_masterVersion :: "string option"
  doc_support_upstream :: "string option"
  doc_support_features :: "ConfigFeatureSchema list option"
  doc_support_releases :: "ConfigReleaseSchema list option"
  doc_support_hotfixes :: "ConfigHotfixSchema list option"

record ConfigSchema =
  doc_apiVersion :: "string option"
  doc_identifier :: string
  doc_managed :: "bool option"
  doc_version :: "string option"
  doc_developVersion :: "string option"
  doc_masterVersion :: "string option"
  doc_upstreams :: "Upstream list option"
  doc_submodules :: "ConfigSubmoduleSchema list option"
  doc_features :: "ConfigFeatureSchema list option"
  doc_releases :: "ConfigReleaseSchema list option"
  doc_hotfixes :: "ConfigHotfixSchema list option"
  doc_supports :: "ConfigSupportSchema list option"
  doc_included :: "string list option"
  doc_excluded :: "string list option"
  doc_featureMessageTemplate :: "string option"
  doc_releaseMessageTemplate :: "string option"
  doc_hotfixMessageTemplate :: "string option"
  doc_releaseTagTemplate :: "string option"
  doc_hotfixTagTemplate :: "string option"
  doc_tags :: "string list option"
  doc_integrations :: "ConfigIntegrationSchema list option"
  doc_commitMessageTemplates :: "ConfigMessageTemplate list option"
  doc_tagTemplates :: "ConfigTagTemplate list option"
  doc_masterBranchName :: "string option"
  doc_developBranchName :: "string option"
  doc_dependencies :: "dependency list option"
  doc_labels :: "jsrecord option"
  doc_annotations :: "jsrecord option"

section \<open>Canonical serializer\<close>

text \<open>\<^verbatim>\<open>xs.length ? f(xs) : undefined\<close>: an empty collection is left out.\<close>

definition nonempty :: "'a list \<Rightarrow> 'b \<Rightarrow> 'b option" where
  "nonempty xs v = (if xs \<noteq> [] then Some v else None)"

definition API_VERSION :: string where
  "API_VERSION = ''v1.5''"

text \<open>
  \<^verbatim>\<open>resolveApiVersion()\<close> of the module; \<^verbatim>\<open>Semver.coerce(v)\<close>, with
  \<^verbatim>\<open>toString()\<close> applied to its result, is the parameter \<open>coerce\<close>.
\<close>

definition resolveApiVersion :: "(string \<Rightarrow> string option) \<Rightarrow> error + string" where
  "resolveApiVersion coerce =
     (case coerce API_VERSION of
        None \<Rightarrow> Inl (Error (''Version '' @ [CHR 0x22] @ API_VERSION @ [CHR 0x22] @
                  '' is not a valid semver format''))
      | Some version \<Rightarrow> Inr version)"

definition TaggingBase_toHash :: "TaggingBase \<Rightarrow> ConfigTaggingSchema" where
  "TaggingBase_toHash t =
     \<lparr>doc_tagging_name = tagging_name t, doc_tagging_annotation = tagging_annotation t\<rparr>"

definition MessageTemplateBase_toHash :: "MessageTemplateBase \<Rightarrow> ConfigMessageTemplate" where
  "MessageTemplateBase_toHash t =
     \<lparr>doc_messageTemplate_name = messageTemplate_name t,
      doc_messageTemplate_message = messageTemplate_message t\<rparr>"

definition TagTemplateBase_toHash :: "TagTemplateBase \<Rightarrow> ConfigTagTemplate" where
  "TagTemplateBase_toHash t =
     \<lparr>doc_tagTemplate_name = tagTemplate_name t,
      doc_tagTemplate_tag = tagTemplate_tag t,
      doc_tagTemplate_annotation = tagTemplate_annotation t\<rparr>"

definition IntegrationBase_toHash :: "IntegrationBase \<Rightarrow> ConfigIntegrationSchema" where
  "IntegrationBase_toHash i =
     \<lparr>doc_integration_plugin = integration_plugin i,
      doc_integration_options = nonempty (integration_options i) (integration_options i)\<rparr>"

definition SubmoduleBase_toHash :: "SubmoduleBase \<Rightarrow> ConfigSubmoduleSchema" where
  "SubmoduleBase_toHash s =
     \<lparr>doc_submodule_name = submodule_name s,
      doc_submodule_path = submodule_path s,
      doc_submodule_url = submodule_url s,
      doc_submodule_tags = nonempty (submodule_tags s) (submodule_tags s),
      doc_submodule_labels = nonempty (submodule_labels s) (submodule_labels s),
      doc_submodule_annotations = nonempty (submodule_annotations s) (submodule_annotations s)\<rparr>"

definition FeatureBase_toHash :: "FeatureBase \<Rightarrow> ConfigFeatureSchema" where
  "FeatureBase_toHash f =
     \<lparr>doc_feature_name = feature_name f,
      doc_feature_branchName = feature_branchName f,
      doc_feature_sourceSha = feature_sourceSha f,
      doc_feature_version = feature_version f,
      doc_feature_upstream = feature_upstream f,
      doc_feature_tags = None\<rparr>"

definition ReleaseBase_toHash :: "ReleaseBase \<Rightarrow> ConfigReleaseSchema" where
  "ReleaseBase_toHash r =
     \<lparr>doc_release_name = release_name r,
      doc_release_branchName = release_branchName r,
      doc_release_sourceSha = release_sourceSha r,
      doc_release_version = release_version r,
      doc_release_upstream = release_upstream r,
      doc_release_intermediate = Some (release_intermediate r),
      doc_release_tags = None\<rparr>"

definition HotfixBase_toHash :: "HotfixBase \<Rightarrow> ConfigHotfixSchema" where
  "HotfixBase_toHash x =
     \<lparr>doc_hotfix_name = hotfix_name x,
      doc_hotfix_branchName = hotfix_branchName x,
      doc_hotfix_sourceSha = hotfix_sourceSha x,
      doc_hotfix_version = hotfix_version x,
      doc_hotfix_upstream = hotfix_upstream x,
      doc_hotfix_intermediate = Some (hotfix_intermediate x),
      doc_hotfix_tags = None\<rparr>"

definition SupportBase_toHash :: "SupportBase \<Rightarrow> ConfigSupportSchema" where
  "SupportBase_toHash s =
     (let features = filter (\<lambda>i. not_flag (feature_shadow i)) (support_features s);
          releases = filter (\<lambda>i. not_flag (release_shadow i)) (support_releases s);
          hotfixes = filter (\<lambda>i. not_flag (hotfix_shadow i)) (support_hotfixes s)
      in \<lparr>doc_support_name = support_name s,
          doc_support_masterBranchName = support_masterBranchName s,
          doc_support_developBranchName = support_developBranchName s,
          doc_support_sourceSha = support_sourceSha s,
          doc_support_developVersion = support_developVersion s,
          doc_support_masterVersion = support_masterVersion s,
          doc_support_upstream = support_upstream s,
          doc_support_features = nonempty features (map FeatureBase_toHash features),
          doc_support_releases = nonempty releases (map ReleaseBase_toHash releases),
          doc_support_hotfixes = nonempty hotfixes (map HotfixBase_toHash hotfixes)\<rparr>)"

text \<open>
  \<^verbatim>\<open>toHash(stampApiVersion = false)\<close>. With the stamp the module's
  \<^verbatim>\<open>resolveApiVersion()\<close> runs, and its exception leaves \<^verbatim>\<open>toHash\<close>.
\<close>

definition ConfigBase_toHash ::
  "(string \<Rightarrow> string option) \<Rightarrow> bool \<Rightarrow> ConfigBase \<Rightarrow> error + ConfigSchema" where
  "ConfigBase_toHash coerce stampApiVersion c =
     (let submodules = filter (\<lambda>i. not_flag (submodule_shadow i)) (submodules c);
          features = filter (\<lambda>i. not_flag (feature_shadow i)) (features c);
          releases = filter (\<lambda>i. not_flag (release_shadow i)) (releases c);
          hotfixes = filter (\<lambda>i. not_flag (hotfix_shadow i)) (hotfixes c)
      in case (if stampApiVersion
               then (case resolveApiVersion coerce of
                       Inl e \<Rightarrow> Inl e | Inr v \<Rightarrow> Inr (Some (''v'' @ v)))
               else Inr (apiVersion c)) of
           Inl e \<Rightarrow> Inl e
         | Inr stamped \<Rightarrow> Inr
            \<lparr>doc_apiVersion = stamped,
             doc_identifier = identifier c,
             doc_managed = (if managed c = False then Some (managed c) else None),
             doc_version = None,
             doc_developVersion = developVersion c,
             doc_masterVersion = masterVersion c,
             doc_upstreams = nonempty (upstreams c) (upstreams c),
             doc_submodules = nonempty submodules (map SubmoduleBase_toHash submodules),
             doc_features = nonempty features (map FeatureBase_toHash features),
             doc_releases = nonempty releases (map ReleaseBase_toHash releases),
             doc_hotfixes = nonempty hotfixes (map HotfixBase_toHash hotfixes),
             doc_supports = nonempty (supports c) (map SupportBase_toHash (supports c)),
             doc_included = nonempty (included c) (included c),
             doc_excluded = nonempty (excluded c) (excluded c),
             doc_featureMessageTemplate = featureMessageTemplate c,
             doc_releaseMessageTemplate = releaseMessageTemplate c,
             doc_hotfixMessageTemplate = hotfixMessageTemplate c,
             doc_releaseTagTemplate = releaseTagTemplate c,
             doc_hotfixTagTemplate = hotfixTagTemplate c,
             doc_tags = nonempty (tags c) (tags c),
             doc_integrations = nonempty (integrations c) (map IntegrationBase_toHash (integrations c)),
             doc_commitMessageTemplates =
               nonempty (commitMessageTemplates c)
                 (map MessageTemplateBase_toHash (commitMessageTemplates c)),
             doc_tagTemplates = nonempty (tagTemplates c) (map TagTemplateBase_toHash (tagTemplates c)),
             doc_masterBranchName = masterBranchName c,
             doc_developBranchName = developBranchName c,
             doc_dependencies =
               (case dependencies c of
                  None \<Rightarrow> None
                | Some ds \<Rightarrow> nonempty ds ds),
             doc_labels = nonempty (labels c) (labels c),
             doc_annotations = nonempty (annotations c) (annotations c)\<rparr>)"

section \<open>Schema registry\<close>

text \<open>
  Modelled from the spec: the construction of the entity tree from a schema-valid
  document (\<open>validate\<close> of the spec) is missing from the source, which holds the schema
  declarations and the entity classes only. The spec gives the defaults: the managed
  flag is true and \<open>intermediate\<close> is false when absent, an absent collection or map is
  empty (the serializer leaves an empty one out and the document re-validates to an
  equivalent tree), shadow entries are never persisted, so no entity built from a
  document is flagged. The optional fields of the tree keep the document's value. The spec
  gives no rule for the legacy \<open>version\<close> key; it is not read.
\<close>

definition validate_tagging :: "ConfigTaggingSchema \<Rightarrow> TaggingBase" where
  "validate_tagging d =
     \<lparr>tagging_name = doc_tagging_name d, tagging_annotation = doc_tagging_annotation d\<rparr>"

definition validate_messageTemplate :: "ConfigMessageTemplate \<Rightarrow> MessageTemplateBase" where
  "validate_messageTemplate d =
     \<lparr>messageTemplate_name = doc_messageTemplate_name d,
      messageTemplate_message = doc_messageTemplate_message d\<rparr>"

definition validate_tagTemplate :: "ConfigTagTemplate \<Rightarrow> TagTemplateBase" where
  "validate_tagTemplate d =
     \<lparr>tagTemplate_name = doc_tagTemplate_name d,
      tagTemplate_tag = doc_tagTemplate_tag d,
      tagTemplate_annotation = doc_tagTemplate_annotation d\<rparr>"

definition validate_integration :: "ConfigIntegrationSchema \<Rightarrow> IntegrationBase" where
  "validate_integration d =
     \<lparr>integration_plugin = doc_integration_plugin d,
      integration_options = list_or_empty (doc_integration_options d)\<rparr>"

definition validate_submodule :: "ConfigSubmoduleSchema \<Rightarrow> SubmoduleBase" where
  "validate_submodule d =
     \<lparr>submodule_name = doc_submodule_name d,
      submodule_path = doc_submodule_path d,
      submodule_url = doc_submodule_url d,
      submodule_tags = list_or_empty (doc_submodule_tags d),
      submodule_labels = list_or_empty (doc_submodule_labels d),
      submodule_annotations = list_or_empty (doc_submodule_annotations d),
      submodule_shadow = None\<rparr>"

definition validate_feature :: "ConfigFeatureSchema \<Rightarrow> FeatureBase" where
  "validate_feature d =
     \<lparr>feature_name = doc_feature_name d,
      feature_branchName = doc_feature_branchName d,
      feature_sourceSha = doc_feature_sourceSha d,
      feature_upstream = doc_feature_upstream d,
      feature_version = doc_feature_version d,
      feature_tags = map validate_tagging (list_or_empty (doc_feature_tags d)),
      feature_shadow = None\<rparr>"

definition validate_release :: "ConfigReleaseSchema \<Rightarrow> ReleaseBase" where
  "validate_release d =
     \<lparr>release_name = doc_release_name d,
      release_branchName = doc_release_branchName d,
      release_sourceSha = doc_release_sourceSha d,
      release_version = doc_release_version d,
      release_upstream = doc_release_upstream d,
      release_intermediate = (case doc_release_intermediate d of None \<Rightarrow> False | Some b \<Rightarrow> b),
      release_tags = map validate_tagging (list_or_empty (doc_release_tags d)),
      release_shadow = None\<rparr>"

definition validate_hotfix :: "ConfigHotfixSchema \<Rightarrow> HotfixBase" where
  "validate_hotfix d =
     \<lparr>hotfix_name = doc_hotfix_name d,
      hotfix_branchName = doc_hotfix_branchName d,
      hotfix_sourceSha = doc_hotfix_sourceSha d,
      hotfix_version = doc_hotfix_version d,
      hotfix_upstream = doc_hotfix_upstream d,
      hotfix_intermediate = (case doc_hotfix_intermediate d of None \<Rightarrow> False | Some b \<Rightarrow> b),
      hotfix_tags = map validate_tagging (list_or_empty (doc_hotfix_tags d)),
      hotfix_shadow = None\<rparr>"

definition validate_support :: "ConfigSupportSchema \<Rightarrow> SupportBase" where
  "validate_support d =
     \<lparr>support_name = doc_support_name d,
      support_masterBranchName = doc_support_masterBranchName d,
      support_developBranchName = doc_support_developBranchName d,
      support_sourceSha = doc_support_sourceSha d,
      support_developVersion = doc_support_developVersion d,
      support_masterVersion = doc_support_masterVersion d,
      support_upstream = doc_support_upstream d,
      support_features = map validate_feature (list_or_empty (doc_support_features d)),
      support_releases = map validate_release (list_or_empty (doc_support_releases d)),
      support_hotfixes = map validate_hotfix (list_or_empty (doc_support_hotfixes d))\<rparr>"

definition validate :: "ConfigSchema \<Rightarrow> ConfigBase" where
  "validate d =
     \<lparr>apiVersion = doc_apiVersion d,
      identifier = doc_identifier d,
      managed = (case doc_managed d of None \<Rightarrow> True | Some b \<Rightarrow> b),
      developVersion = doc_developVersion d,
      masterVersion = doc_masterVersion d,
      upstreams = list_or_empty (doc_upstreams d),
      submodules = map validate_submodule (list_or_empty (doc_submodules d)),
      features = map validate_feature (list_or_empty (doc_features d)),
      releases = map validate_release (list_or_empty (doc_releases d)),
      hotfixes = map validate_hotfix (list_or_empty (doc_hotfixes d)),
      supports = map validate_support (list_or_empty (doc_supports d)),
      included = list_or_empty (doc_included d),
      excluded = list_or_empty (doc_excluded d),
      featureMessageTemplate = doc_featureMessageTemplate d,
      releaseMessageTemplate = doc_releaseMessageTemplate d,
      hotfixMessageTemplate = doc_hotfixMessageTemplate d,
      releaseTagTemplate = doc_releaseTagTemplate d,
      hotfixTagTemplate = doc_hotfixTagTemplate d,
      tags = list_or_empty (doc_tags d),
      integrations = map validate_integration (list_or_empty (doc_integrations d)),
      commitMessageTemplates = map validate_messageTemplate (list_or_empty (doc_commitMessageTemplates d)),
      tagTemplates = map validate_tagTemplate (list_or_empty (doc_tagTemplates d)),
      masterBranchName = doc_masterBranchName d,
      developBranchName = doc_developBranchName d,
      dependencies = doc_dependencies d,
      labels = list_or_empty (doc_labels d),
      annotations = list_or_empty (doc_annotations d)\<rparr>"

section \<open>Version resolver\<close>

datatype branch = develop | master

text \<open>
  \<^verbatim>\<open>resolveVersion(type = 'develop')\<close> of \<^verbatim>\<open>ConfigBase\<close> and
  \<^verbatim>\<open>SupportBase\<close>. \<^verbatim>\<open>Semver.clean\<close> is the parameter \<open>clean\<close>, \<open>None\<close> for
  \<^verbatim>\<open>null\<close>. \<^verbatim>\<open>!x\<close> holds of undefined, of \<^verbatim>\<open>null\<close> and of the empty string.
  The result \<open>Inr None\<close> is the bare \<^verbatim>\<open>return\<close>.
\<close>

definition version_error :: "string \<Rightarrow> error" where
  "version_error v =
     Error (''Version '' @ [CHR 0x22] @ v @ [CHR 0x22] @ '' is not a valid semver format'')"

definition resolve_current :: "(string \<Rightarrow> string option) \<Rightarrow> string option \<Rightarrow> error + string option" where
  "resolve_current clean currentVersion =
     (case currentVersion of
        None \<Rightarrow> Inr None
      | Some cv \<Rightarrow>
          if cv = [] then Inr None
          else
            (case clean cv of
               None \<Rightarrow> Inl (version_error cv)
             | Some version \<Rightarrow> if version = [] then Inl (version_error cv) else Inr (Some version)))"

definition ConfigBase_resolveVersion ::
  "(string \<Rightarrow> string option) \<Rightarrow> ConfigBase \<Rightarrow> branch option \<Rightarrow> error + string option" where
  "ConfigBase_resolveVersion clean c type =
     (let ty = (case type of None \<Rightarrow> develop | Some t \<Rightarrow> t);
          currentVersion = (if ty = develop then developVersion c else masterVersion c)
      in resolve_current clean currentVersion)"

definition SupportBase_resolveVersion ::
  "(string \<Rightarrow> string option) \<Rightarrow> SupportBase \<Rightarrow> branch option \<Rightarrow> error + string option" where
  "SupportBase_resolveVersion clean s type =
     (let ty = (case type of None \<Rightarrow> develop | Some t \<Rightarrow> t);
          currentVersion = (if ty = develop then support_developVersion s else support_masterVersion s)
      in resolve_current clean currentVersion)"

section \<open>The order of the hashed fields\<close>

text \<open>
  What each entity contributes to the bytes of the hash, written as one concatenation in the
  order of the fold: an absent optional field is the empty string, a collection is the
  concatenation of its members' contributions, an empty map contributes nothing.
\<close>

definition opt :: "string option \<Rightarrow> string" where
  "opt x = (case x of None \<Rightarrow> [] | Some s \<Rightarrow> s)"

definition tagging_fields :: "TaggingBase \<Rightarrow> string" where
  "tagging_fields t = tagging_name t @ opt (tagging_annotation t)"

definition messageTemplate_fields :: "MessageTemplateBase \<Rightarrow> string" where
  "messageTemplate_fields t = messageTemplate_name t @ messageTemplate_message t"

definition tagTemplate_fields :: "TagTemplateBase \<Rightarrow> string" where
  "tagTemplate_fields t = tagTemplate_name t @ tagTemplate_tag t @ opt (tagTemplate_annotation t)"

definition integration_fields :: "(json \<Rightarrow> string) \<Rightarrow> IntegrationBase \<Rightarrow> string" where
  "integration_fields stringify i = integration_plugin i @ stringify (JObj (integration_options i))"

definition record_fields :: "(json \<Rightarrow> string) \<Rightarrow> jsrecord \<Rightarrow> string" where
  "record_fields stringify r = (if r = [] then [] else stringify (JObj r))"

definition submodule_fields :: "(json \<Rightarrow> string) \<Rightarrow> SubmoduleBase \<Rightarrow> string" where
  "submodule_fields stringify s =
     submodule_name s @ submodule_path s @ opt (submodule_url s) @ concat (submodule_tags s) @
     record_fields stringify (submodule_labels s) @ record_fields stringify (submodule_annotations s)"

definition feature_fields :: "FeatureBase \<Rightarrow> string" where
  "feature_fields f =
     feature_name f @ feature_branchName f @ feature_sourceSha f @ opt (feature_version f) @
     opt (feature_upstream f) @ concat (map tagging_fields (feature_tags f))"

definition release_fields :: "ReleaseBase \<Rightarrow> string" where
  "release_fields r =
     release_name r @ release_branchName r @ release_sourceSha r @ opt (release_version r) @
     opt (release_upstream r) @ bool_toString (release_intermediate r) @
     concat (map tagging_fields (release_tags r))"

definition hotfix_fields :: "HotfixBase \<Rightarrow> string" where
  "hotfix_fields x =
     hotfix_name x @ hotfix_branchName x @ hotfix_sourceSha x @ opt (hotfix_version x) @
     opt (hotfix_upstream x) @ bool_toString (hotfix_intermediate x) @
     concat (map tagging_fields (hotfix_tags x))"

definition support_fields :: "SupportBase \<Rightarrow> string" where
  "support_fields s =
     support_name s @ support_masterBranchName s @ support_developBranchName s @
     support_sourceSha s @ opt (support_developVersion s) @ opt (support_masterVersion s) @
     opt (support_upstream s) @
     concat (map feature_fields (filter (\<lambda>i. not_flag (feature_shadow i)) (support_features s))) @
     concat (map release_fields (filter (\<lambda>i. not_flag (release_shadow i)) (support_releases s))) @
     concat (map hotfix_fields (filter (\<lambda>i. not_flag (hotfix_shadow i)) (support_hotfixes s)))"

definition config_fields :: "(json \<Rightarrow> string) \<Rightarrow> ConfigBase \<Rightarrow> string" where
  "config_fields stringify c =
     opt (apiVersion c) @ identifier c @ (if managed c then [] else ''unmanaged'') @
     opt (developVersion c) @ opt (masterVersion c) @
     concat (map (\<lambda>u. upstream_name u @ upstream_url u) (upstreams c)) @
     concat (included c) @ concat (excluded c) @
     concat (map (submodule_fields stringify)
       (filter (\<lambda>i. not_flag (submodule_shadow i)) (submodules c))) @
     concat (map feature_fields (filter (\<lambda>i. not_flag (feature_shadow i)) (features c))) @
     concat (map release_fields (filter (\<lambda>i. not_flag (release_shadow i)) (releases c))) @
     concat (map hotfix_fields (filter (\<lambda>i. not_flag (hotfix_shadow i)) (hotfixes c))) @
     concat (map support_fields (supports c)) @
     opt (featureMessageTemplate c) @ opt (releaseMessageTemplate c) @
     opt (hotfixMessageTemplate c) @ opt (releaseTagTemplate c) @ opt (hotfixTagTemplate c) @
     concat (tags c) @
     concat (map (integration_fields stringify) (integrations c)) @
     concat (map messageTemplate_fields (commitMessageTemplates c)) @
     concat (map tagTemplate_fields (tagTemplates c)) @
     opt (masterBranchName c) @ opt (developBranchName c) @
     concat (map (\<lambda>d. stringify (json_of_dependency d)) (list_or_empty (dependencies c))) @
     record_fields stringify (labels c) @ record_fields stringify (annotations c)"

section \<open>Library instances and example inputs\<close>

text \<open>
  The library functions are parameters of the model. To evaluate it at concrete inputs
  they are instantiated by tables of the library's values at the arguments the examples
  use: strings that are URLs, the JSON text of the empty object, the coerced API version,
  the cleaned form of three spellings of \<^verbatim>\<open>1.2.3\<close>; the digest is the one that returns
  the bytes it was fed (it has no collisions).
\<close>

definition known_urls :: "string \<Rightarrow> bool" where
  "known_urls u = (u \<in> set [''glfs://host1/ns1/cfgname'', ''glfs://ns1/cfgname'',
      ''glfs://host1/ns1/cfgname/support1'', ''glfs://a'', ''glfs://a/b/c/d/e'',
      ''ftp://example.com/cfg.yml'', ''file:///etc/repo.yml'', ''config://'',
      ''branch://release/1.0'', ''https://example.com/cfg.yml''])"

definition known_json :: "json \<Rightarrow> string" where
  "known_json j = (if j = JObj [] then ''{}'' else ''null'')"

definition raw_digest :: "string \<Rightarrow> string \<Rightarrow> string \<Rightarrow> string" where
  "raw_digest algorithm encoding bytes = bytes"

definition known_coerce :: "string \<Rightarrow> string option" where
  "known_coerce v = (if v = ''v1.5'' then Some ''1.5.0'' else None)"

definition bare_config :: "string \<Rightarrow> ConfigBase" where
  "bare_config ident =
     \<lparr>apiVersion = None, identifier = ident, managed = True, developVersion = None,
      masterVersion = None, upstreams = [], submodules = [], features = [], releases = [],
      hotfixes = [], supports = [], included = [], excluded = [],
      featureMessageTemplate = None, releaseMessageTemplate = None,
      hotfixMessageTemplate = None, releaseTagTemplate = None, hotfixTagTemplate = None,
      tags = [], integrations = [], commitMessageTemplates = [], tagTemplates = [],
      masterBranchName = None, developBranchName = None, dependencies = None,
      labels = [], annotations = []\<rparr>"

definition login_feature :: FeatureBase where
  "login_feature =
     \<lparr>feature_name = ''login'', feature_branchName = ''feature/login'',
      feature_sourceSha = ''abc123'', feature_upstream = None, feature_version = None,
      feature_tags = [\<lparr>tagging_name = ''beta'', tagging_annotation = None\<rparr>],
      feature_shadow = None\<rparr>"

definition tagged_config :: ConfigBase where
  "tagged_config = (bare_config ''repo'')\<lparr>features := [login_feature]\<rparr>"

definition stamped_config :: ConfigBase where
  "stamped_config = (bare_config ''repo'')\<lparr>apiVersion := Some ''v1.5''\<rparr>"

definition known_versions :: "string \<Rightarrow> string option" where
  "known_versions v =
     (if v \<in> set [''1.2.3'', ''v1.2.3'', ''  v1.2.3  ''] then Some ''1.2.3'' else None)"

definition shadow_submodule :: SubmoduleBase where
  "shadow_submodule =
     \<lparr>submodule_name = ''docs'', submodule_path = ''modules/docs'', submodule_url = None,
      submodule_tags = [], submodule_labels = [], submodule_annotations = [],
      submodule_shadow = Some True\<rparr>"

definition shadow_feature :: FeatureBase where
  "shadow_feature = login_feature\<lparr>feature_shadow := Some True\<rparr>"

definition shadow_release :: ReleaseBase where
  "shadow_release =
     \<lparr>release_name = ''1.0'', release_branchName = ''release/1.0'', release_sourceSha = ''def456'',
      release_version = None, release_upstream = None, release_intermediate = False,
      release_tags = [], release_shadow = Some True\<rparr>"

definition shadow_hotfix :: HotfixBase where
  "shadow_hotfix =
     \<lparr>hotfix_name = ''1.0.1'', hotfix_branchName = ''hotfix/1.0.1'', hotfix_sourceSha = ''0a1b2c'',
      hotfix_version = None, hotfix_upstream = None, hotfix_intermediate = False,
      hotfix_tags = [], hotfix_shadow = Some True\<rparr>"

definition bare_support :: "string \<Rightarrow> SupportBase" where
  "bare_support n =
     \<lparr>support_name = n, support_masterBranchName = ''support/'' @ n @ ''/master'',
      support_developBranchName = ''support/'' @ n @ ''/develop'', support_sourceSha = ''777aaa'',
      support_developVersion = None, support_masterVersion = None, support_upstream = None,
      support_features = [], support_releases = [], support_hotfixes = []\<rparr>"

text \<open>
  Trees in which no Feature, Release or Hotfix carries a Tagging, and trees without
  shadow entries, at the top level and inside the supports.
\<close>

definition untagged :: "ConfigBase \<Rightarrow> bool" where
  "untagged c =
     (list_all (\<lambda>f. feature_tags f = []) (features c) \<and>
      list_all (\<lambda>r. release_tags r = []) (releases c) \<and>
      list_all (\<lambda>x. hotfix_tags x = []) (hotfixes c) \<and>
      list_all (\<lambda>s. list_all (\<lambda>f. feature_tags f = []) (support_features s) \<and>
                     list_all (\<lambda>r. release_tags r = []) (support_releases s) \<and>
                     list_all (\<lambda>x. hotfix_tags x = []) (support_hotfixes s)) (supports c))"

definition unshadowed :: "ConfigBase \<Rightarrow> bool" where
  "unshadowed c =
     (list_all (\<lambda>s. not_flag (submodule_shadow s)) (submodules c) \<and>
      list_all (\<lambda>f. not_flag (feature_shadow f)) (features c) \<and>
      list_all (\<lambda>r. not_flag (release_shadow r)) (releases c) \<and>
      list_all (\<lambda>x. not_flag (hotfix_shadow x)) (hotfixes c) \<and>
      list_all (\<lambda>s. list_all (\<lambda>f. not_flag (feature_shadow f)) (support_features s) \<and>
                     list_all (\<lambda>r. not_flag (release_shadow r)) (support_releases s) \<and>
                     list_all (\<lambda>x. not_flag (hotfix_shadow x)) (support_hotfixes s)) (supports c))"

section \<open>Proofs\<close>

subsection \<open>The fold appends the fields in order\<close>

lemma update_truthy_append: "update_truthy x h = h @ opt x"
  by (simp add: update_truthy_def update_def opt_def split: option.splits)

lemma fold_appends:
  assumes "\<And>x h. f x h = h @ g x"
  shows "fold f xs h = h @ concat (map g xs)"
  by (induction xs arbitrary: h) (simp_all add: assms)

lemma fold_update: "fold update xs h = h @ concat xs"
  using fold_appends[of update "\<lambda>x. x" xs h] by (simp add: update_def)

lemma TaggingBase_updateHash_fields: "TaggingBase_updateHash t h = h @ tagging_fields t"
  by (simp add: TaggingBase_updateHash_def tagging_fields_def update_def update_truthy_append)

lemma fold_tagging: "fold TaggingBase_updateHash ts h = h @ concat (map tagging_fields ts)"
  by (rule fold_appends) (rule TaggingBase_updateHash_fields)

lemma MessageTemplateBase_updateHash_fields:
  "MessageTemplateBase_updateHash t h = h @ messageTemplate_fields t"
  by (simp add: MessageTemplateBase_updateHash_def messageTemplate_fields_def update_def)

lemma TagTemplateBase_updateHash_fields: "TagTemplateBase_updateHash t h = h @ tagTemplate_fields t"
  by (simp add: TagTemplateBase_updateHash_def tagTemplate_fields_def update_def update_truthy_append)

lemma IntegrationBase_updateHash_fields:
  "IntegrationBase_updateHash stringify i h = h @ integration_fields stringify i"
  by (simp add: IntegrationBase_updateHash_def integration_fields_def update_def)

lemma SubmoduleBase_updateHash_fields:
  "SubmoduleBase_updateHash stringify s h = h @ submodule_fields stringify s"
  by (simp add: SubmoduleBase_updateHash_def submodule_fields_def record_fields_def update_def
      update_truthy_append fold_update)

lemma FeatureBase_updateHash_fields: "FeatureBase_updateHash f h = h @ feature_fields f"
  by (simp add: FeatureBase_updateHash_def feature_fields_def update_def update_truthy_append
      fold_tagging)

lemma ReleaseBase_updateHash_fields: "ReleaseBase_updateHash r h = h @ release_fields r"
  by (simp add: ReleaseBase_updateHash_def release_fields_def update_def update_truthy_append
      fold_tagging)

lemma HotfixBase_updateHash_fields: "HotfixBase_updateHash x h = h @ hotfix_fields x"
  by (simp add: HotfixBase_updateHash_def hotfix_fields_def update_def update_truthy_append
      fold_tagging)

lemma fold_features: "fold FeatureBase_updateHash fs h = h @ concat (map feature_fields fs)"
  by (rule fold_appends) (rule FeatureBase_updateHash_fields)

lemma fold_releases: "fold ReleaseBase_updateHash rs h = h @ concat (map release_fields rs)"
  by (rule fold_appends) (rule ReleaseBase_updateHash_fields)

lemma fold_hotfixes: "fold HotfixBase_updateHash xs h = h @ concat (map hotfix_fields xs)"
  by (rule fold_appends) (rule HotfixBase_updateHash_fields)

lemma SupportBase_updateHash_fields: "SupportBase_updateHash s h = h @ support_fields s"
  by (simp add: SupportBase_updateHash_def support_fields_def update_def update_truthy_append
      fold_features fold_releases fold_hotfixes)

lemma fold_supports: "fold SupportBase_updateHash ss h = h @ concat (map support_fields ss)"
  by (rule fold_appends) (rule SupportBase_updateHash_fields)

lemma fold_submodules:
  "fold (SubmoduleBase_updateHash stringify) ss h = h @ concat (map (submodule_fields stringify) ss)"
  by (rule fold_appends) (rule SubmoduleBase_updateHash_fields)

lemma fold_integrations:
  "fold (IntegrationBase_updateHash stringify) is h = h @ concat (map (integration_fields stringify) is)"
  by (rule fold_appends) (rule IntegrationBase_updateHash_fields)

lemma fold_messageTemplates:
  "fold MessageTemplateBase_updateHash ts h = h @ concat (map messageTemplate_fields ts)"
  by (rule fold_appends) (rule MessageTemplateBase_updateHash_fields)

lemma fold_tagTemplates:
  "fold TagTemplateBase_updateHash ts h = h @ concat (map tagTemplate_fields ts)"
  by (rule fold_appends) (rule TagTemplateBase_updateHash_fields)

lemma fold_upstreams:
  "fold (\<lambda>upstream h. update (upstream_url upstream) (update (upstream_name upstream) h)) us h =
   h @ concat (map (\<lambda>u. upstream_name u @ upstream_url u) us)"
  by (rule fold_appends) (simp add: update_def)

lemma fold_dependencies:
  "fold (\<lambda>dependency. update (stringify (json_of_dependency dependency))) ds h =
   h @ concat (map (\<lambda>d. stringify (json_of_dependency d)) ds)"
  by (rule fold_appends) (simp add: update_def)

lemma ConfigBase_updateHash_fields:
  "ConfigBase_updateHash stringify c h = h @ config_fields stringify c"
  unfolding ConfigBase_updateHash_def config_fields_def Let_def
    fold_upstreams fold_dependencies fold_update fold_submodules fold_features fold_releases
    fold_hotfixes fold_supports fold_integrations fold_messageTemplates fold_tagTemplates
    update_truthy_append
  by (simp add: update_def record_fields_def list_or_empty_def)

subsection \<open>Reference resolver\<close>

lemma glfs_parts:
  assumes "isUrl uri" "split ''://'' uri = ''glfs'' # qualifier # rest"
  shows "parseConfigReference isUrl uri =
     (let parts = split ''/'' qualifier in
             if length parts = 4
               then Inr (GlfsRef (Some (parts ! 0)) (parts ! 1) (parts ! 2) (Some (parts ! 3)))
             else if length parts = 3
               then Inr (GlfsRef (Some (parts ! 0)) (parts ! 1) (parts ! 2) None)
             else if length parts = 2
               then Inr (GlfsRef None (parts ! 0) (parts ! 1) None)
             else Inl (Error (''GLFS Uri invalid ['' @ uri @ '']'')))"
  using assms by (simp add: parseConfigReference_def ConfigUriSchema_def protocols_def)

text \<open>
  C5 (amended). For a glfs URI accepted by the schema, the segments of the qualifier are
  assigned by position from the left: two segments are namespace and name; three are
  hostname, namespace and name; four are hostname, namespace, name and support, so the
  support qualifier is the last segment and the name the third. With two or three segments
  this is the right-aligned reading: the last segment is the name and the one before it the
  namespace.
\<close>

theorem glfs_segments:
  assumes "isUrl uri" and "split ''://'' uri = ''glfs'' # qualifier # rest"
  shows "(split ''/'' qualifier = [a, b] \<longrightarrow>
            parseConfigReference isUrl uri = Inr (GlfsRef None a b None))
       \<and> (split ''/'' qualifier = [a, b, c] \<longrightarrow>
            parseConfigReference isUrl uri = Inr (GlfsRef (Some a) b c None))
       \<and> (split ''/'' qualifier = [a, b, c, d] \<longrightarrow>
            parseConfigReference isUrl uri = Inr (GlfsRef (Some a) b c (Some d)))"
  using glfs_parts[of isUrl uri qualifier rest] assms by simp

theorem glfs_segments_witness:
  "parseConfigReference known_urls ''glfs://ns1/cfgname'' = Inr (GlfsRef None ''ns1'' ''cfgname'' None)
 \<and> parseConfigReference known_urls ''glfs://host1/ns1/cfgname'' =
      Inr (GlfsRef (Some ''host1'') ''ns1'' ''cfgname'' None)
 \<and> parseConfigReference known_urls ''glfs://host1/ns1/cfgname/support1'' =
      Inr (GlfsRef (Some ''host1'') ''ns1'' ''cfgname'' (Some ''support1''))"
proof -
  have u2: "known_urls ''glfs://ns1/cfgname''" by (simp add: known_urls_def)
  have s2: "split ''://'' ''glfs://ns1/cfgname'' = ''glfs'' # ''ns1/cfgname'' # []"
    by (simp add: split_def)
  have q2: "split ''/'' ''ns1/cfgname'' = [''ns1'', ''cfgname'']" by (simp add: split_def)
  have u3: "known_urls ''glfs://host1/ns1/cfgname''" by (simp add: known_urls_def)
  have s3: "split ''://'' ''glfs://host1/ns1/cfgname'' = ''glfs'' # ''host1/ns1/cfgname'' # []"
    by (simp add: split_def)
  have q3: "split ''/'' ''host1/ns1/cfgname'' = [''host1'', ''ns1'', ''cfgname'']"
    by (simp add: split_def)
  have u4: "known_urls ''glfs://host1/ns1/cfgname/support1''" by (simp add: known_urls_def)
  have s4: "split ''://'' ''glfs://host1/ns1/cfgname/support1'' =
      ''glfs'' # ''host1/ns1/cfgname/support1'' # []"
    by (simp add: split_def)
  have q4: "split ''/'' ''host1/ns1/cfgname/support1'' = [''host1'', ''ns1'', ''cfgname'', ''support1'']"
    by (simp add: split_def)
  from glfs_segments[of known_urls "''glfs://ns1/cfgname''", OF u2 s2] q2
    glfs_segments[of known_urls "''glfs://host1/ns1/cfgname''", OF u3 s3] q3
    glfs_segments[of known_urls "''glfs://host1/ns1/cfgname/support1''", OF u4 s4] q4
  show ?thesis by blast
qed

text \<open>
  With four segments the last segment is the support qualifier, not the name: the
  right-aligned reading of \<^verbatim>\<open>glfs://host1/ns1/cfgname/support1\<close> (name
  \<^verbatim>\<open>support1\<close>, namespace \<^verbatim>\<open>cfgname\<close>, support \<^verbatim>\<open>ns1\<close>) is not what is
  returned.
\<close>

theorem glfs_right_aligned_counterexample:
  "parseConfigReference known_urls ''glfs://host1/ns1/cfgname/support1'' =
      Inr (GlfsRef (Some ''host1'') ''ns1'' ''cfgname'' (Some ''support1''))
 \<and> parseConfigReference known_urls ''glfs://host1/ns1/cfgname/support1'' \<noteq>
      Inr (GlfsRef (Some ''host1'') ''cfgname'' ''support1'' (Some ''ns1''))"
  by (simp add: parseConfigReference_def ConfigUriSchema_def protocols_def known_urls_def split_def)

lemma split_from_not_Nil: "split_from sep acc s \<noteq> []"
  by (induction sep acc s rule: split_from.induct) auto

lemma schema_rejects:
  assumes "\<not> isUrl uri \<or> split ''://'' uri = [p]"
  shows "\<exists>issues. parseConfigReference isUrl uri = Inl (ZodError issues)"
  using assms by (auto simp: parseConfigReference_def ConfigUriSchema_def)

lemma schema_accepts:
  assumes "isUrl uri" and "split ''://'' uri = p # q # rest"
  shows "ConfigUriSchema isUrl uri =
     (if p \<in> set protocols then Inr (p, q) else Inl (ZodError [InvalidProtocol]))"
  using assms by (simp add: ConfigUriSchema_def)

lemma parse_accepted:
  assumes "isUrl uri" and "split ''://'' uri = p # q # rest" and "p \<in> set protocols"
  shows "parseConfigReference isUrl uri =
     (if p = ''config'' then Inr ConfigRef
      else if p = ''file'' then Inr (FileRef q)
      else if p = ''branch'' then Inr (BranchRef q)
      else if p = ''http'' \<or> p = ''https'' then Inr (HttpRef p q)
      else if length (split ''/'' q) = 4
        then Inr (GlfsRef (Some (split ''/'' q ! 0)) (split ''/'' q ! 1) (split ''/'' q ! 2)
               (Some (split ''/'' q ! 3)))
      else if length (split ''/'' q) = 3
        then Inr (GlfsRef (Some (split ''/'' q ! 0)) (split ''/'' q ! 1) (split ''/'' q ! 2) None)
      else if length (split ''/'' q) = 2
        then Inr (GlfsRef None (split ''/'' q ! 0) (split ''/'' q ! 1) None)
      else Inl (Error (''GLFS Uri invalid ['' @ uri @ '']'')))"
  using assms(3) unfolding parseConfigReference_def schema_accepts[of isUrl uri p q rest, OF assms(1,2)]
  by (auto simp: protocols_def Let_def)

text \<open>
  C6 (amended). A URI that the schema rejects (not a URL, or no \<^verbatim>\<open>://\<close> in it) fails
  with the schema's validation error. For a URL \<^verbatim>\<open>p://q\<close>, parsing fails exactly when
  \<open>p\<close> is outside the six protocols or \<open>p\<close> is glfs and \<open>q\<close> has a number of segments
  outside 2, 3, 4. An unrecognized protocol raises the schema's validation error; a glfs
  qualifier of the wrong shape raises an \<^verbatim>\<open>Error\<close> whose message carries the URI; the
  function's own \<^verbatim>\<open>Unsupported config protocol\<close> error is never raised.
\<close>

theorem parse_failure:
  "(\<not> isUrl uri \<or> split ''://'' uri = [p] \<longrightarrow>
      (\<exists>issues. parseConfigReference isUrl uri = Inl (ZodError issues)))
 \<and> (isUrl uri \<and> split ''://'' uri = p # q # rest \<longrightarrow>
      (isl (parseConfigReference isUrl uri) \<longleftrightarrow>
         p \<notin> set protocols \<or> (p = ''glfs'' \<and> length (split ''/'' q) \<notin> {2, 3, 4}))
    \<and> (p \<notin> set protocols \<longrightarrow>
         parseConfigReference isUrl uri = Inl (ZodError [InvalidProtocol]))
    \<and> (p = ''glfs'' \<and> length (split ''/'' q) \<notin> {2, 3, 4} \<longrightarrow>
         parseConfigReference isUrl uri = Inl (Error (''GLFS Uri invalid ['' @ uri @ '']''))))
 \<and> parseConfigReference isUrl uri \<noteq> Inl (Error (''Unsupported config protocol '' @ x))"
proof (intro conjI impI)
  assume "\<not> isUrl uri \<or> split ''://'' uri = [p]"
  then show "\<exists>issues. parseConfigReference isUrl uri = Inl (ZodError issues)"
    by (rule schema_rejects)
next
  assume a: "isUrl uri \<and> split ''://'' uri = p # q # rest"
  show "isl (parseConfigReference isUrl uri) \<longleftrightarrow>
         p \<notin> set protocols \<or> (p = ''glfs'' \<and> length (split ''/'' q) \<notin> {2, 3, 4})"
  proof (cases "p \<in> set protocols")
    case True
    with a show ?thesis
      by (simp add: parse_accepted[of isUrl uri p q rest]) (auto simp: protocols_def)
  next
    case False
    with a show ?thesis
      by (simp add: parseConfigReference_def schema_accepts[of isUrl uri p q rest])
  qed
next
  assume "isUrl uri \<and> split ''://'' uri = p # q # rest" and "p \<notin> set protocols"
  then show "parseConfigReference isUrl uri = Inl (ZodError [InvalidProtocol])"
    by (simp add: parseConfigReference_def schema_accepts[of isUrl uri p q rest])
next
  assume "isUrl uri \<and> split ''://'' uri = p # q # rest"
    and "p = ''glfs'' \<and> length (split ''/'' q) \<notin> {2, 3, 4}"
  then show "parseConfigReference isUrl uri = Inl (Error (''GLFS Uri invalid ['' @ uri @ '']''))"
    by (simp add: parse_accepted[of isUrl uri p q rest] protocols_def)
next
  show "parseConfigReference isUrl uri \<noteq> Inl (Error (''Unsupported config protocol '' @ x))"
    by (auto simp: parseConfigReference_def ConfigUriSchema_def protocols_def Let_def
        split: list.splits if_splits)
qed

theorem parse_failure_witness:
  "parseConfigReference known_urls ''ftp://example.com/cfg.yml'' = Inl (ZodError [InvalidProtocol])
 \<and> parseConfigReference known_urls ''glfs://a'' = Inl (Error ''GLFS Uri invalid [glfs://a]'')
 \<and> (\<exists>issues. parseConfigReference known_urls ''not a url'' = Inl (ZodError issues))
 \<and> \<not> isl (parseConfigReference known_urls ''file:///etc/repo.yml'')"
proof -
  have u1: "known_urls ''ftp://example.com/cfg.yml'' \<and>
      split ''://'' ''ftp://example.com/cfg.yml'' = ''ftp'' # ''example.com/cfg.yml'' # []"
    by (simp add: known_urls_def split_def)
  have p1: "''ftp'' \<notin> set protocols" by (simp add: protocols_def)
  have u2: "known_urls ''glfs://a'' \<and> split ''://'' ''glfs://a'' = ''glfs'' # ''a'' # []"
    by (simp add: known_urls_def split_def)
  have p2: "''glfs'' = ''glfs'' \<and> length (split ''/'' ''a'') \<notin> {2, 3, 4}"
    by (simp add: split_def)
  have u3: "\<not> known_urls ''not a url'' \<or> split ''://'' ''not a url'' = [''x'']"
    by (simp add: known_urls_def)
  have u4: "known_urls ''file:///etc/repo.yml'' \<and>
      split ''://'' ''file:///etc/repo.yml'' = ''file'' # ''/etc/repo.yml'' # []"
    by (simp add: known_urls_def split_def)
  have p4: "\<not> (''file'' \<notin> set protocols \<or>
      (''file'' = ''glfs'' \<and> length (split ''/'' ''/etc/repo.yml'') \<notin> {2, 3, 4}))"
    by (simp add: protocols_def)
  from parse_failure[of known_urls "''ftp://example.com/cfg.yml''" "''ftp''" "''example.com/cfg.yml''" "[]"] u1 p1
  have c1: "parseConfigReference known_urls ''ftp://example.com/cfg.yml'' = Inl (ZodError [InvalidProtocol])"
    by blast
  from parse_failure[of known_urls "''glfs://a''" "''glfs''" "''a''" "[]"] u2 p2
  have c2: "parseConfigReference known_urls ''glfs://a'' = Inl (Error (''GLFS Uri invalid ['' @ ''glfs://a'' @ '']''))"
    by blast
  from parse_failure[of known_urls "''not a url''" "''x''"] u3
  have c3: "\<exists>issues. parseConfigReference known_urls ''not a url'' = Inl (ZodError issues)"
    by blast
  from parse_failure[of known_urls "''file:///etc/repo.yml''" "''file''" "''/etc/repo.yml''" "[]"] u4 p4
  have c4: "\<not> isl (parseConfigReference known_urls ''file:///etc/repo.yml'')"
    by blast
  from c1 c2 c3 c4 show ?thesis by simp
qed

text \<open>
  An unrecognized protocol is rejected by the schema before the function's own check is
  reached: the error raised is the validation error.
\<close>

theorem unsupported_protocol_counterexample:
  "parseConfigReference known_urls ''ftp://example.com/cfg.yml'' = Inl (ZodError [InvalidProtocol])
 \<and> parseConfigReference known_urls ''ftp://example.com/cfg.yml'' \<noteq>
      Inl (Error ''Unsupported config protocol ftp'')"
  by (simp add: parseConfigReference_def ConfigUriSchema_def protocols_def known_urls_def split_def)

subsection \<open>Hash engine\<close>

text \<open>
  C4 (amended). The fold feeds the fields in one fixed order, that of \<open>config_fields\<close>:
  apiVersion, then identifier, then the managed sentinel, developVersion, masterVersion,
  upstreams, included, excluded, submodules, features, releases, hotfixes, supports, the
  five per-kind templates, tags, integrations, the named commit-message templates and tag
  templates, the branch-name overrides, dependencies, labels, annotations. Children are
  folded by their own fixed order, and an absent optional field contributes nothing.
\<close>

theorem traversal_order:
  "ConfigBase_updateHash stringify c h = h @ config_fields stringify c
 \<and> calculateHash crypto stringify (Some algorithm) (Some encoding) c =
      crypto algorithm encoding (config_fields stringify c)
 \<and> calculateHash crypto stringify None None c = crypto ''sha256'' ''hex'' (config_fields stringify c)
 \<and> SubmoduleBase_updateHash stringify s h = h @ submodule_fields stringify s
 \<and> FeatureBase_updateHash f h = h @ feature_fields f
 \<and> ReleaseBase_updateHash r h = h @ release_fields r
 \<and> HotfixBase_updateHash x h = h @ hotfix_fields x
 \<and> SupportBase_updateHash sp h = h @ support_fields sp
 \<and> IntegrationBase_updateHash stringify i h = h @ integration_fields stringify i
 \<and> TaggingBase_updateHash t h = h @ tagging_fields t
 \<and> MessageTemplateBase_updateHash mt h = h @ messageTemplate_fields mt
 \<and> TagTemplateBase_updateHash tt h = h @ tagTemplate_fields tt
 \<and> opt None = []"
  by (simp add: ConfigBase_updateHash_fields calculateHash_def createHash_def opt_def
      SubmoduleBase_updateHash_fields FeatureBase_updateHash_fields
      ReleaseBase_updateHash_fields HotfixBase_updateHash_fields SupportBase_updateHash_fields
      IntegrationBase_updateHash_fields TaggingBase_updateHash_fields
      MessageTemplateBase_updateHash_fields TagTemplateBase_updateHash_fields)

text \<open>
  The apiVersion is fed before the identifier: a tree with apiVersion \<^verbatim>\<open>v1.5\<close> and
  identifier \<^verbatim>\<open>repo\<close> feeds \<^verbatim>\<open>v1.5repo\<close>, not the identifier first.
\<close>

theorem traversal_order_counterexample:
  "ConfigBase_updateHash known_json stamped_config createHash = ''v1.5repo''
 \<and> ConfigBase_updateHash known_json stamped_config createHash \<noteq> ''repo'' @ ''v1.5''"
  by (simp add: ConfigBase_updateHash_fields createHash_def stamped_config_def config_fields_def
      bare_config_def opt_def record_fields_def list_or_empty_def)

text \<open>
  C3. With managed false the fold feeds the token \<^verbatim>\<open>unmanaged\<close> right after the
  identifier, and with managed true it feeds nothing there, the rest being the same; so the
  bytes differ, and the digests differ for every digest function without collisions. A
  document without the managed key and the same document with \<^verbatim>\<open>managed: true\<close>
  give the same digest.
\<close>

theorem managed_sentinel:
  "(\<exists>rest. ConfigBase_updateHash stringify (c\<lparr>managed := False\<rparr>) h =
             h @ opt (apiVersion c) @ identifier c @ ''unmanaged'' @ rest
         \<and> ConfigBase_updateHash stringify (c\<lparr>managed := True\<rparr>) h =
             h @ opt (apiVersion c) @ identifier c @ rest)
 \<and> ConfigBase_updateHash stringify (c\<lparr>managed := False\<rparr>) h \<noteq>
    ConfigBase_updateHash stringify (c\<lparr>managed := True\<rparr>) h
 \<and> (inj (crypto algorithm encoding) \<longrightarrow>
      calculateHash crypto stringify (Some algorithm) (Some encoding) (c\<lparr>managed := False\<rparr>) \<noteq>
      calculateHash crypto stringify (Some algorithm) (Some encoding) (c\<lparr>managed := True\<rparr>))
 \<and> managed (validate (d\<lparr>doc_managed := Some False\<rparr>)) = False
 \<and> calculateHash crypto stringify a e (validate (d\<lparr>doc_managed := None\<rparr>)) =
    calculateHash crypto stringify a e (validate (d\<lparr>doc_managed := Some True\<rparr>))"
proof (intro conjI impI)
  show "\<exists>rest. ConfigBase_updateHash stringify (c\<lparr>managed := False\<rparr>) h =
             h @ opt (apiVersion c) @ identifier c @ ''unmanaged'' @ rest
         \<and> ConfigBase_updateHash stringify (c\<lparr>managed := True\<rparr>) h =
             h @ opt (apiVersion c) @ identifier c @ rest"
    by (simp add: ConfigBase_updateHash_fields config_fields_def)
  have len: "length (ConfigBase_updateHash stringify (c\<lparr>managed := False\<rparr>) h) =
      length (ConfigBase_updateHash stringify (c\<lparr>managed := True\<rparr>) h) + 9"
    by (simp add: ConfigBase_updateHash_fields config_fields_def)
  then show ne: "ConfigBase_updateHash stringify (c\<lparr>managed := False\<rparr>) h \<noteq>
    ConfigBase_updateHash stringify (c\<lparr>managed := True\<rparr>) h"
    by auto
  have ne0: "ConfigBase_updateHash stringify (c\<lparr>managed := False\<rparr>) createHash \<noteq>
    ConfigBase_updateHash stringify (c\<lparr>managed := True\<rparr>) createHash"
  proof -
    have "length (ConfigBase_updateHash stringify (c\<lparr>managed := False\<rparr>) createHash) =
      length (ConfigBase_updateHash stringify (c\<lparr>managed := True\<rparr>) createHash) + 9"
      by (simp add: ConfigBase_updateHash_fields config_fields_def)
    then show ?thesis by auto
  qed
  show "calculateHash crypto stringify (Some algorithm) (Some encoding) (c\<lparr>managed := False\<rparr>) \<noteq>
      calculateHash crypto stringify (Some algorithm) (Some encoding) (c\<lparr>managed := True\<rparr>)"
    if "inj (crypto algorithm encoding)"
    using that ne0 by (auto simp: calculateHash_def dest: injD)
  show "managed (validate (d\<lparr>doc_managed := Some False\<rparr>)) = False"
    by (simp add: validate_def)
  show "calculateHash crypto stringify a e (validate (d\<lparr>doc_managed := None\<rparr>)) =
    calculateHash crypto stringify a e (validate (d\<lparr>doc_managed := Some True\<rparr>))"
    by (simp add: validate_def)
qed

theorem managed_sentinel_witness:
  "calculateHash raw_digest known_json (Some ''sha256'') (Some ''hex'') ((bare_config ''repo'')\<lparr>managed := False\<rparr>) \<noteq>
   calculateHash raw_digest known_json (Some ''sha256'') (Some ''hex'') ((bare_config ''repo'')\<lparr>managed := True\<rparr>)"
proof -
  have i: "inj (raw_digest ''sha256'' ''hex'')"
    by (rule injI) (simp add: raw_digest_def)
  from managed_sentinel[of known_json "bare_config ''repo''" "[]" raw_digest "''sha256''" "''hex''"] i
  show ?thesis by blast
qed

lemma calculateHash_in_result:
  "calculateHash_in crypto stringify algorithm encoding c st =
     (crypto (case algorithm of None \<Rightarrow> ''sha256'' | Some a \<Rightarrow> a)
        (case encoding of None \<Rightarrow> ''hex'' | Some e \<Rightarrow> e) (config_fields stringify c),
      st @ [config_fields stringify c])"
  by (simp add: calculateHash_in_def createHash_in_def updateHash_in_def createHash_def
      ConfigBase_updateHash_fields)

text \<open>
  C8. Whatever hash objects exist when it is called, \<open>calculateHash\<close> returns the
  library's digest of the bytes of the tree's fields: the digest is the same from any two
  stores, the same when the call is repeated on the store the first call has left, and
  the same for the trees built from one document; the call leaves the earlier hash objects
  as they were. It is the digest of the store-free \<open>calculateHash\<close>.
\<close>

theorem hash_deterministic:
  "fst (calculateHash_in crypto stringify algorithm encoding c st) =
     crypto (case algorithm of None \<Rightarrow> ''sha256'' | Some a \<Rightarrow> a)
       (case encoding of None \<Rightarrow> ''hex'' | Some e \<Rightarrow> e) (config_fields stringify c)
 \<and> fst (calculateHash_in crypto stringify algorithm encoding c st) =
     fst (calculateHash_in crypto stringify algorithm encoding c st')
 \<and> fst (calculateHash_in crypto stringify algorithm encoding c
       (snd (calculateHash_in crypto stringify algorithm encoding c st))) =
     fst (calculateHash_in crypto stringify algorithm encoding c st)
 \<and> fst (calculateHash_in crypto stringify algorithm encoding (validate d) st) =
     fst (calculateHash_in crypto stringify algorithm encoding (validate d) st')
 \<and> take (length st) (snd (calculateHash_in crypto stringify algorithm encoding c st)) = st
 \<and> fst (calculateHash_in crypto stringify algorithm encoding c st) =
     calculateHash crypto stringify algorithm encoding c"
  by (simp add: calculateHash_in_result calculateHash_def ConfigBase_updateHash_fields
      createHash_def)

text \<open>
  C10. The fields are fed without delimiters or labels, so distinct trees have the same
  digest under every algorithm: moving the last included path to the front of the excluded
  paths changes nothing, and the upstream \<^verbatim>\<open>{name:'ab', url:'c'}\<close> feeds the same bytes
  as \<^verbatim>\<open>{name:'a', url:'bc'}\<close>.
\<close>

theorem undelimited_collisions:
  "calculateHash crypto stringify algorithm encoding (c\<lparr>included := xs @ [s], excluded := ys\<rparr>) =
   calculateHash crypto stringify algorithm encoding (c\<lparr>included := xs, excluded := s # ys\<rparr>)
 \<and> (bare_config ''repo'')\<lparr>included := [''src'']\<rparr> \<noteq> (bare_config ''repo'')\<lparr>excluded := [''src'']\<rparr>
 \<and> calculateHash crypto stringify algorithm encoding ((bare_config ''repo'')\<lparr>included := [''src'']\<rparr>) =
   calculateHash crypto stringify algorithm encoding ((bare_config ''repo'')\<lparr>excluded := [''src'']\<rparr>)
 \<and> (bare_config ''repo'')\<lparr>upstreams := [\<lparr>upstream_name = ''ab'', upstream_url = ''c''\<rparr>]\<rparr> \<noteq>
   (bare_config ''repo'')\<lparr>upstreams := [\<lparr>upstream_name = ''a'', upstream_url = ''bc''\<rparr>]\<rparr>
 \<and> calculateHash crypto stringify algorithm encoding
     ((bare_config ''repo'')\<lparr>upstreams := [\<lparr>upstream_name = ''ab'', upstream_url = ''c''\<rparr>]\<rparr>) =
   calculateHash crypto stringify algorithm encoding
     ((bare_config ''repo'')\<lparr>upstreams := [\<lparr>upstream_name = ''a'', upstream_url = ''bc''\<rparr>]\<rparr>)"
proof (intro conjI)
  show "calculateHash crypto stringify algorithm encoding (c\<lparr>included := xs @ [s], excluded := ys\<rparr>) =
   calculateHash crypto stringify algorithm encoding (c\<lparr>included := xs, excluded := s # ys\<rparr>)"
    by (simp add: calculateHash_def ConfigBase_updateHash_fields config_fields_def)
  show "(bare_config ''repo'')\<lparr>included := [''src'']\<rparr> \<noteq> (bare_config ''repo'')\<lparr>excluded := [''src'']\<rparr>"
    by (simp add: bare_config_def)
  show "calculateHash crypto stringify algorithm encoding ((bare_config ''repo'')\<lparr>included := [''src'']\<rparr>) =
   calculateHash crypto stringify algorithm encoding ((bare_config ''repo'')\<lparr>excluded := [''src'']\<rparr>)"
    by (simp add: calculateHash_def ConfigBase_updateHash_fields config_fields_def bare_config_def)
  show "(bare_config ''repo'')\<lparr>upstreams := [\<lparr>upstream_name = ''ab'', upstream_url = ''c''\<rparr>]\<rparr> \<noteq>
   (bare_config ''repo'')\<lparr>upstreams := [\<lparr>upstream_name = ''a'', upstream_url = ''bc''\<rparr>]\<rparr>"
    by (simp add: bare_config_def)
  show "calculateHash crypto stringify algorithm encoding
     ((bare_config ''repo'')\<lparr>upstreams := [\<lparr>upstream_name = ''ab'', upstream_url = ''c''\<rparr>]\<rparr>) =
   calculateHash crypto stringify algorithm encoding
     ((bare_config ''repo'')\<lparr>upstreams := [\<lparr>upstream_name = ''a'', upstream_url = ''bc''\<rparr>]\<rparr>)"
    by (simp add: calculateHash_def ConfigBase_updateHash_fields config_fields_def bare_config_def)
qed

subsection \<open>Shadow entries\<close>

lemma support_shadow_feature:
  assumes "feature_shadow f = Some True" and "support_features sp = fs @ fs'"
  shows "support_fields (sp\<lparr>support_features := fs @ f # fs'\<rparr>) = support_fields sp"
    and "SupportBase_toHash (sp\<lparr>support_features := fs @ f # fs'\<rparr>) = SupportBase_toHash sp"
  using assms by (simp_all add: support_fields_def SupportBase_toHash_def not_flag_def Let_def)

lemma support_shadow_release:
  assumes "release_shadow r = Some True" and "support_releases sp = rs @ rs'"
  shows "support_fields (sp\<lparr>support_releases := rs @ r # rs'\<rparr>) = support_fields sp"
    and "SupportBase_toHash (sp\<lparr>support_releases := rs @ r # rs'\<rparr>) = SupportBase_toHash sp"
  using assms by (simp_all add: support_fields_def SupportBase_toHash_def not_flag_def Let_def)

lemma support_shadow_hotfix:
  assumes "hotfix_shadow x = Some True" and "support_hotfixes sp = xs @ xs'"
  shows "support_fields (sp\<lparr>support_hotfixes := xs @ x # xs'\<rparr>) = support_fields sp"
    and "SupportBase_toHash (sp\<lparr>support_hotfixes := xs @ x # xs'\<rparr>) = SupportBase_toHash sp"
  using assms by (simp_all add: support_fields_def SupportBase_toHash_def not_flag_def Let_def)

lemma config_same_supports:
  assumes "supports c = sps @ sp # sps'" and "support_fields sp' = support_fields sp"
    and "SupportBase_toHash sp' = SupportBase_toHash sp"
  shows "calculateHash crypto stringify algorithm encoding (c\<lparr>supports := sps @ sp' # sps'\<rparr>) =
         calculateHash crypto stringify algorithm encoding c"
    and "ConfigBase_toHash coerce stamp (c\<lparr>supports := sps @ sp' # sps'\<rparr>) = ConfigBase_toHash coerce stamp c"
proof -
  show "calculateHash crypto stringify algorithm encoding (c\<lparr>supports := sps @ sp' # sps'\<rparr>) =
         calculateHash crypto stringify algorithm encoding c"
    using assms by (simp add: calculateHash_def ConfigBase_updateHash_fields config_fields_def)
  show "ConfigBase_toHash coerce stamp (c\<lparr>supports := sps @ sp' # sps'\<rparr>) = ConfigBase_toHash coerce stamp c"
    using assms by (cases stamp; cases "resolveApiVersion coerce")
      (simp_all add: ConfigBase_toHash_def Let_def nonempty_def)
qed

lemma config_shadow_entry:
  assumes "\<not> not_flag (submodule_shadow s)"
  shows "submodules c = ss @ ss' \<Longrightarrow>
       calculateHash crypto stringify algorithm encoding (c\<lparr>submodules := ss @ s # ss'\<rparr>) =
       calculateHash crypto stringify algorithm encoding c"
    and "submodules c = ss @ ss' \<Longrightarrow>
       ConfigBase_toHash coerce stamp (c\<lparr>submodules := ss @ s # ss'\<rparr>) = ConfigBase_toHash coerce stamp c"
proof -
  assume a: "submodules c = ss @ ss'"
  show "calculateHash crypto stringify algorithm encoding (c\<lparr>submodules := ss @ s # ss'\<rparr>) =
       calculateHash crypto stringify algorithm encoding c"
    using a assms by (simp add: calculateHash_def ConfigBase_updateHash_fields config_fields_def)
next
  assume a: "submodules c = ss @ ss'"
  show "ConfigBase_toHash coerce stamp (c\<lparr>submodules := ss @ s # ss'\<rparr>) = ConfigBase_toHash coerce stamp c"
    using a assms by (cases stamp; cases "resolveApiVersion coerce")
      (simp_all add: ConfigBase_toHash_def Let_def)
qed

lemma config_shadow_feature:
  assumes "\<not> not_flag (feature_shadow f)" and "features c = fs @ fs'"
  shows "calculateHash crypto stringify algorithm encoding (c\<lparr>features := fs @ f # fs'\<rparr>) =
       calculateHash crypto stringify algorithm encoding c"
    and "ConfigBase_toHash coerce stamp (c\<lparr>features := fs @ f # fs'\<rparr>) = ConfigBase_toHash coerce stamp c"
proof -
  show "calculateHash crypto stringify algorithm encoding (c\<lparr>features := fs @ f # fs'\<rparr>) =
       calculateHash crypto stringify algorithm encoding c"
    using assms by (simp add: calculateHash_def ConfigBase_updateHash_fields config_fields_def)
  show "ConfigBase_toHash coerce stamp (c\<lparr>features := fs @ f # fs'\<rparr>) = ConfigBase_toHash coerce stamp c"
    using assms by (cases stamp; cases "resolveApiVersion coerce")
      (simp_all add: ConfigBase_toHash_def Let_def)
qed

lemma config_shadow_release:
  assumes "\<not> not_flag (release_shadow r)" and "releases c = rs @ rs'"
  shows "calculateHash crypto stringify algorithm encoding (c\<lparr>releases := rs @ r # rs'\<rparr>) =
       calculateHash crypto stringify algorithm encoding c"
    and "ConfigBase_toHash coerce stamp (c\<lparr>releases := rs @ r # rs'\<rparr>) = ConfigBase_toHash coerce stamp c"
proof -
  show "calculateHash crypto stringify algorithm encoding (c\<lparr>releases := rs @ r # rs'\<rparr>) =
       calculateHash crypto stringify algorithm encoding c"
    using assms by (simp add: calculateHash_def ConfigBase_updateHash_fields config_fields_def)
  show "ConfigBase_toHash coerce stamp (c\<lparr>releases := rs @ r # rs'\<rparr>) = ConfigBase_toHash coerce stamp c"
    using assms by (cases stamp; cases "resolveApiVersion coerce")
      (simp_all add: ConfigBase_toHash_def Let_def)
qed

lemma config_shadow_hotfix:
  assumes "\<not> not_flag (hotfix_shadow x)" and "hotfixes c = xs @ xs'"
  shows "calculateHash crypto stringify algorithm encoding (c\<lparr>hotfixes := xs @ x # xs'\<rparr>) =
       calculateHash crypto stringify algorithm encoding c"
    and "ConfigBase_toHash coerce stamp (c\<lparr>hotfixes := xs @ x # xs'\<rparr>) = ConfigBase_toHash coerce stamp c"
proof -
  show "calculateHash crypto stringify algorithm encoding (c\<lparr>hotfixes := xs @ x # xs'\<rparr>) =
       calculateHash crypto stringify algorithm encoding c"
    using assms by (simp add: calculateHash_def ConfigBase_updateHash_fields config_fields_def)
  show "ConfigBase_toHash coerce stamp (c\<lparr>hotfixes := xs @ x # xs'\<rparr>) = ConfigBase_toHash coerce stamp c"
    using assms by (cases stamp; cases "resolveApiVersion coerce")
      (simp_all add: ConfigBase_toHash_def Let_def)
qed

text \<open>
  C2. Adding a shadow-flagged Submodule, Feature, Release or Hotfix anywhere in its list,
  at the top level of the tree or inside a support, changes neither the digest nor the
  canonical document, while the entry is a member of the tree's list.
\<close>

theorem shadow_exclusion:
  assumes "submodule_shadow s = Some True" and "feature_shadow f = Some True"
    and "release_shadow r = Some True" and "hotfix_shadow x = Some True"
  shows
   "(submodules c = ss @ ss' \<longrightarrow>
       calculateHash crypto stringify algorithm encoding (c\<lparr>submodules := ss @ s # ss'\<rparr>) =
       calculateHash crypto stringify algorithm encoding c
     \<and> ConfigBase_toHash coerce stamp (c\<lparr>submodules := ss @ s # ss'\<rparr>) = ConfigBase_toHash coerce stamp c
     \<and> s \<in> set (submodules (c\<lparr>submodules := ss @ s # ss'\<rparr>)))
  \<and> (features c = fs @ fs' \<longrightarrow>
       calculateHash crypto stringify algorithm encoding (c\<lparr>features := fs @ f # fs'\<rparr>) =
       calculateHash crypto stringify algorithm encoding c
     \<and> ConfigBase_toHash coerce stamp (c\<lparr>features := fs @ f # fs'\<rparr>) = ConfigBase_toHash coerce stamp c
     \<and> f \<in> set (features (c\<lparr>features := fs @ f # fs'\<rparr>)))
  \<and> (releases c = rs @ rs' \<longrightarrow>
       calculateHash crypto stringify algorithm encoding (c\<lparr>releases := rs @ r # rs'\<rparr>) =
       calculateHash crypto stringify algorithm encoding c
     \<and> ConfigBase_toHash coerce stamp (c\<lparr>releases := rs @ r # rs'\<rparr>) = ConfigBase_toHash coerce stamp c
     \<and> r \<in> set (releases (c\<lparr>releases := rs @ r # rs'\<rparr>)))
  \<and> (hotfixes c = xs @ xs' \<longrightarrow>
       calculateHash crypto stringify algorithm encoding (c\<lparr>hotfixes := xs @ x # xs'\<rparr>) =
       calculateHash crypto stringify algorithm encoding c
     \<and> ConfigBase_toHash coerce stamp (c\<lparr>hotfixes := xs @ x # xs'\<rparr>) = ConfigBase_toHash coerce stamp c
     \<and> x \<in> set (hotfixes (c\<lparr>hotfixes := xs @ x # xs'\<rparr>)))
  \<and> (supports c = sps @ sp # sps' \<and> support_features sp = fs @ fs' \<longrightarrow>
       calculateHash crypto stringify algorithm encoding
         (c\<lparr>supports := sps @ sp\<lparr>support_features := fs @ f # fs'\<rparr> # sps'\<rparr>) =
       calculateHash crypto stringify algorithm encoding c
     \<and> ConfigBase_toHash coerce stamp
         (c\<lparr>supports := sps @ sp\<lparr>support_features := fs @ f # fs'\<rparr> # sps'\<rparr>) =
       ConfigBase_toHash coerce stamp c)
  \<and> (supports c = sps @ sp # sps' \<and> support_releases sp = rs @ rs' \<longrightarrow>
       calculateHash crypto stringify algorithm encoding
         (c\<lparr>supports := sps @ sp\<lparr>support_releases := rs @ r # rs'\<rparr> # sps'\<rparr>) =
       calculateHash crypto stringify algorithm encoding c
     \<and> ConfigBase_toHash coerce stamp
         (c\<lparr>supports := sps @ sp\<lparr>support_releases := rs @ r # rs'\<rparr> # sps'\<rparr>) =
       ConfigBase_toHash coerce stamp c)
  \<and> (supports c = sps @ sp # sps' \<and> support_hotfixes sp = xs @ xs' \<longrightarrow>
       calculateHash crypto stringify algorithm encoding
         (c\<lparr>supports := sps @ sp\<lparr>support_hotfixes := xs @ x # xs'\<rparr> # sps'\<rparr>) =
       calculateHash crypto stringify algorithm encoding c
     \<and> ConfigBase_toHash coerce stamp
         (c\<lparr>supports := sps @ sp\<lparr>support_hotfixes := xs @ x # xs'\<rparr> # sps'\<rparr>) =
       ConfigBase_toHash coerce stamp c)"
proof -
  have n: "\<not> not_flag (submodule_shadow s)" "\<not> not_flag (feature_shadow f)"
    "\<not> not_flag (release_shadow r)" "\<not> not_flag (hotfix_shadow x)"
    using assms by (simp_all add: not_flag_def)
  have sf: "calculateHash crypto stringify algorithm encoding
         (c\<lparr>supports := sps @ sp\<lparr>support_features := fs @ f # fs'\<rparr> # sps'\<rparr>) =
       calculateHash crypto stringify algorithm encoding c
     \<and> ConfigBase_toHash coerce stamp
         (c\<lparr>supports := sps @ sp\<lparr>support_features := fs @ f # fs'\<rparr> # sps'\<rparr>) =
       ConfigBase_toHash coerce stamp c"
    if a: "supports c = sps @ sp # sps'" and b: "support_features sp = fs @ fs'"
    using config_same_supports[OF a support_shadow_feature[OF assms(2) b]] by simp
  have sr: "calculateHash crypto stringify algorithm encoding
         (c\<lparr>supports := sps @ sp\<lparr>support_releases := rs @ r # rs'\<rparr> # sps'\<rparr>) =
       calculateHash crypto stringify algorithm encoding c
     \<and> ConfigBase_toHash coerce stamp
         (c\<lparr>supports := sps @ sp\<lparr>support_releases := rs @ r # rs'\<rparr> # sps'\<rparr>) =
       ConfigBase_toHash coerce stamp c"
    if a: "supports c = sps @ sp # sps'" and b: "support_releases sp = rs @ rs'"
    using config_same_supports[OF a support_shadow_release[OF assms(3) b]] by simp
  have sx: "calculateHash crypto stringify algorithm encoding
         (c\<lparr>supports := sps @ sp\<lparr>support_hotfixes := xs @ x # xs'\<rparr> # sps'\<rparr>) =
       calculateHash crypto stringify algorithm encoding c
     \<and> ConfigBase_toHash coerce stamp
         (c\<lparr>supports := sps @ sp\<lparr>support_hotfixes := xs @ x # xs'\<rparr> # sps'\<rparr>) =
       ConfigBase_toHash coerce stamp c"
    if a: "supports c = sps @ sp # sps'" and b: "support_hotfixes sp = xs @ xs'"
    using config_same_supports[OF a support_shadow_hotfix[OF assms(4) b]] by simp
  show ?thesis
    using sf sr sx
    by (simp add: config_shadow_entry[OF n(1)] config_shadow_feature[OF n(2)]
        config_shadow_release[OF n(3)] config_shadow_hotfix[OF n(4)])
qed

theorem shadow_exclusion_witness:
  "calculateHash raw_digest known_json None None ((bare_config ''repo'')\<lparr>submodules := [shadow_submodule]\<rparr>) =
     calculateHash raw_digest known_json None None (bare_config ''repo'')
 \<and> ConfigBase_toHash known_coerce False ((bare_config ''repo'')\<lparr>submodules := [shadow_submodule]\<rparr>) =
     ConfigBase_toHash known_coerce False (bare_config ''repo'')
 \<and> shadow_submodule \<in> set (submodules ((bare_config ''repo'')\<lparr>submodules := [shadow_submodule]\<rparr>))
 \<and> calculateHash raw_digest known_json None None ((bare_config ''repo'')\<lparr>features := [shadow_feature]\<rparr>) =
     calculateHash raw_digest known_json None None (bare_config ''repo'')
 \<and> ConfigBase_toHash known_coerce False ((bare_config ''repo'')\<lparr>features := [shadow_feature]\<rparr>) =
     ConfigBase_toHash known_coerce False (bare_config ''repo'')
 \<and> calculateHash raw_digest known_json None None ((bare_config ''repo'')\<lparr>releases := [shadow_release]\<rparr>) =
     calculateHash raw_digest known_json None None (bare_config ''repo'')
 \<and> calculateHash raw_digest known_json None None ((bare_config ''repo'')\<lparr>hotfixes := [shadow_hotfix]\<rparr>) =
     calculateHash raw_digest known_json None None (bare_config ''repo'')
 \<and> calculateHash raw_digest known_json None None
       ((bare_config ''repo'')\<lparr>supports := [(bare_support ''1.x'')\<lparr>support_features := [shadow_feature]\<rparr>]\<rparr>) =
     calculateHash raw_digest known_json None None
       ((bare_config ''repo'')\<lparr>supports := [bare_support ''1.x'']\<rparr>)
 \<and> calculateHash raw_digest known_json None None
       ((bare_config ''repo'')\<lparr>supports := [(bare_support ''1.x'')\<lparr>support_releases := [shadow_release]\<rparr>]\<rparr>) =
     calculateHash raw_digest known_json None None
       ((bare_config ''repo'')\<lparr>supports := [bare_support ''1.x'']\<rparr>)
 \<and> calculateHash raw_digest known_json None None
       ((bare_config ''repo'')\<lparr>supports := [(bare_support ''1.x'')\<lparr>support_hotfixes := [shadow_hotfix]\<rparr>]\<rparr>) =
     calculateHash raw_digest known_json None None
       ((bare_config ''repo'')\<lparr>supports := [bare_support ''1.x'']\<rparr>)"
proof -
  have a: "submodule_shadow shadow_submodule = Some True" "feature_shadow shadow_feature = Some True"
    "release_shadow shadow_release = Some True" "hotfix_shadow shadow_hotfix = Some True"
    by (simp_all add: shadow_submodule_def shadow_feature_def shadow_release_def shadow_hotfix_def)
  have b: "submodules (bare_config ''repo'') = [] @ []" "features (bare_config ''repo'') = [] @ []"
    "releases (bare_config ''repo'') = [] @ []" "hotfixes (bare_config ''repo'') = [] @ []"
    by (simp_all add: bare_config_def)
  have c: "supports ((bare_config ''repo'')\<lparr>supports := [bare_support ''1.x'']\<rparr>) = [] @ bare_support ''1.x'' # []
      \<and> support_features (bare_support ''1.x'') = [] @ []"
    "supports ((bare_config ''repo'')\<lparr>supports := [bare_support ''1.x'']\<rparr>) = [] @ bare_support ''1.x'' # []
      \<and> support_releases (bare_support ''1.x'') = [] @ []"
    "supports ((bare_config ''repo'')\<lparr>supports := [bare_support ''1.x'']\<rparr>) = [] @ bare_support ''1.x'' # []
      \<and> support_hotfixes (bare_support ''1.x'') = [] @ []"
    by (simp_all add: bare_support_def)
  from shadow_exclusion[OF a, where c = "bare_config ''repo''" and ss = "[]" and ss' = "[]"
      and fs = "[]" and fs' = "[]" and rs = "[]" and rs' = "[]" and xs = "[]" and xs' = "[]"
      and crypto = raw_digest and stringify = known_json and algorithm = None and encoding = None
      and coerce = known_coerce and stamp = False] b
  have top: "calculateHash raw_digest known_json None None ((bare_config ''repo'')\<lparr>submodules := [shadow_submodule]\<rparr>) =
     calculateHash raw_digest known_json None None (bare_config ''repo'')
   \<and> ConfigBase_toHash known_coerce False ((bare_config ''repo'')\<lparr>submodules := [shadow_submodule]\<rparr>) =
     ConfigBase_toHash known_coerce False (bare_config ''repo'')
   \<and> shadow_submodule \<in> set (submodules ((bare_config ''repo'')\<lparr>submodules := [shadow_submodule]\<rparr>))
   \<and> calculateHash raw_digest known_json None None ((bare_config ''repo'')\<lparr>features := [shadow_feature]\<rparr>) =
     calculateHash raw_digest known_json None None (bare_config ''repo'')
   \<and> ConfigBase_toHash known_coerce False ((bare_config ''repo'')\<lparr>features := [shadow_feature]\<rparr>) =
     ConfigBase_toHash known_coerce False (bare_config ''repo'')
   \<and> calculateHash raw_digest known_json None None ((bare_config ''repo'')\<lparr>releases := [shadow_release]\<rparr>) =
     calculateHash raw_digest known_json None None (bare_config ''repo'')
   \<and> calculateHash raw_digest known_json None None ((bare_config ''repo'')\<lparr>hotfixes := [shadow_hotfix]\<rparr>) =
     calculateHash raw_digest known_json None None (bare_config ''repo'')"
    by simp
  from shadow_exclusion[OF a, where c = "(bare_config ''repo'')\<lparr>supports := [bare_support ''1.x'']\<rparr>"
      and sps = "[]" and sps' = "[]" and sp = "bare_support ''1.x''" and fs = "[]" and fs' = "[]"
      and rs = "[]" and rs' = "[]" and xs = "[]" and xs' = "[]"
      and crypto = raw_digest and stringify = known_json and algorithm = None and encoding = None] c
  have sup: "calculateHash raw_digest known_json None None
       ((bare_config ''repo'')\<lparr>supports := [(bare_support ''1.x'')\<lparr>support_features := [shadow_feature]\<rparr>]\<rparr>) =
     calculateHash raw_digest known_json None None
       ((bare_config ''repo'')\<lparr>supports := [bare_support ''1.x'']\<rparr>)
   \<and> calculateHash raw_digest known_json None None
       ((bare_config ''repo'')\<lparr>supports := [(bare_support ''1.x'')\<lparr>support_releases := [shadow_release]\<rparr>]\<rparr>) =
     calculateHash raw_digest known_json None None
       ((bare_config ''repo'')\<lparr>supports := [bare_support ''1.x'']\<rparr>)
   \<and> calculateHash raw_digest known_json None None
       ((bare_config ''repo'')\<lparr>supports := [(bare_support ''1.x'')\<lparr>support_hotfixes := [shadow_hotfix]\<rparr>]\<rparr>) =
     calculateHash raw_digest known_json None None
       ((bare_config ''repo'')\<lparr>supports := [bare_support ''1.x'']\<rparr>)"
    by simp
  from top sup show ?thesis by blast
qed

subsection \<open>Round trip\<close>

lemma list_or_empty_nonempty: "list_or_empty (nonempty xs (map f xs)) = map f xs"
  by (simp add: list_or_empty_def nonempty_def)

lemma list_or_empty_nonempty_id: "list_or_empty (nonempty xs xs) = xs"
  by (simp add: list_or_empty_def nonempty_def)

lemma filter_all: "list_all P xs \<Longrightarrow> filter P xs = xs"
  by (induction xs) auto

lemma concat_map_roundtrip:
  "list_all (\<lambda>x. f (v (t x)) = f x) xs \<Longrightarrow> concat (map f (map v (map t xs))) = concat (map f xs)"
  by (induction xs) auto

lemma feature_roundtrip:
  "feature_tags f = [] \<Longrightarrow> feature_fields (validate_feature (FeatureBase_toHash f)) = feature_fields f"
  by (simp add: feature_fields_def validate_feature_def FeatureBase_toHash_def list_or_empty_def)

lemma release_roundtrip:
  "release_tags r = [] \<Longrightarrow> release_fields (validate_release (ReleaseBase_toHash r)) = release_fields r"
  by (simp add: release_fields_def validate_release_def ReleaseBase_toHash_def list_or_empty_def)

lemma hotfix_roundtrip:
  "hotfix_tags x = [] \<Longrightarrow> hotfix_fields (validate_hotfix (HotfixBase_toHash x)) = hotfix_fields x"
  by (simp add: hotfix_fields_def validate_hotfix_def HotfixBase_toHash_def list_or_empty_def)

lemma submodule_roundtrip:
  "submodule_fields stringify (validate_submodule (SubmoduleBase_toHash s)) = submodule_fields stringify s"
  by (simp add: submodule_fields_def validate_submodule_def SubmoduleBase_toHash_def
      list_or_empty_nonempty_id)

lemma integration_roundtrip:
  "integration_fields stringify (validate_integration (IntegrationBase_toHash i)) =
   integration_fields stringify i"
  by (simp add: integration_fields_def validate_integration_def IntegrationBase_toHash_def
      list_or_empty_nonempty_id)

lemma messageTemplate_roundtrip:
  "validate_messageTemplate (MessageTemplateBase_toHash t) = t"
  by (simp add: validate_messageTemplate_def MessageTemplateBase_toHash_def)

lemma tagTemplate_roundtrip: "validate_tagTemplate (TagTemplateBase_toHash t) = t"
  by (simp add: validate_tagTemplate_def TagTemplateBase_toHash_def)

lemma features_roundtrip:
  assumes "list_all (\<lambda>f. feature_tags f = []) fs" and "list_all (\<lambda>f. not_flag (feature_shadow f)) fs"
  shows "concat (map feature_fields (filter (\<lambda>i. not_flag (feature_shadow i))
           (map validate_feature (list_or_empty
              (nonempty (filter (\<lambda>i. not_flag (feature_shadow i)) fs)
                 (map FeatureBase_toHash (filter (\<lambda>i. not_flag (feature_shadow i)) fs))))))) =
         concat (map feature_fields (filter (\<lambda>i. not_flag (feature_shadow i)) fs))"
proof -
  have v: "list_all (\<lambda>i. not_flag (feature_shadow i)) (map validate_feature ds)" for ds
    by (induction ds) (simp_all add: validate_feature_def not_flag_def)
  have r: "list_all (\<lambda>x. feature_fields (validate_feature (FeatureBase_toHash x)) = feature_fields x) fs"
    using assms(1) by (induction fs) (simp_all add: feature_roundtrip)
  show ?thesis
    by (simp add: filter_all[OF assms(2)] list_or_empty_nonempty filter_all[OF v]
        concat_map_roundtrip[of feature_fields validate_feature FeatureBase_toHash fs, OF r] del: map_map)
qed

lemma releases_roundtrip:
  assumes "list_all (\<lambda>f. release_tags f = []) fs" and "list_all (\<lambda>f. not_flag (release_shadow f)) fs"
  shows "concat (map release_fields (filter (\<lambda>i. not_flag (release_shadow i))
           (map validate_release (list_or_empty
              (nonempty (filter (\<lambda>i. not_flag (release_shadow i)) fs)
                 (map ReleaseBase_toHash (filter (\<lambda>i. not_flag (release_shadow i)) fs))))))) =
         concat (map release_fields (filter (\<lambda>i. not_flag (release_shadow i)) fs))"
proof -
  have v: "list_all (\<lambda>i. not_flag (release_shadow i)) (map validate_release ds)" for ds
    by (induction ds) (simp_all add: validate_release_def not_flag_def)
  have r: "list_all (\<lambda>x. release_fields (validate_release (ReleaseBase_toHash x)) = release_fields x) fs"
    using assms(1) by (induction fs) (simp_all add: release_roundtrip)
  show ?thesis
    by (simp add: filter_all[OF assms(2)] list_or_empty_nonempty filter_all[OF v]
        concat_map_roundtrip[of release_fields validate_release ReleaseBase_toHash fs, OF r] del: map_map)
qed

lemma hotfixes_roundtrip:
  assumes "list_all (\<lambda>f. hotfix_tags f = []) fs" and "list_all (\<lambda>f. not_flag (hotfix_shadow f)) fs"
  shows "concat (map hotfix_fields (filter (\<lambda>i. not_flag (hotfix_shadow i))
           (map validate_hotfix (list_or_empty
              (nonempty (filter (\<lambda>i. not_flag (hotfix_shadow i)) fs)
                 (map HotfixBase_toHash (filter (\<lambda>i. not_flag (hotfix_shadow i)) fs))))))) =
         concat (map hotfix_fields (filter (\<lambda>i. not_flag (hotfix_shadow i)) fs))"
proof -
  have v: "list_all (\<lambda>i. not_flag (hotfix_shadow i)) (map validate_hotfix ds)" for ds
    by (induction ds) (simp_all add: validate_hotfix_def not_flag_def)
  have r: "list_all (\<lambda>x. hotfix_fields (validate_hotfix (HotfixBase_toHash x)) = hotfix_fields x) fs"
    using assms(1) by (induction fs) (simp_all add: hotfix_roundtrip)
  show ?thesis
    by (simp add: filter_all[OF assms(2)] list_or_empty_nonempty filter_all[OF v]
        concat_map_roundtrip[of hotfix_fields validate_hotfix HotfixBase_toHash fs, OF r] del: map_map)
qed

lemma support_roundtrip:
  assumes "list_all (\<lambda>f. feature_tags f = []) (support_features s)"
    and "list_all (\<lambda>r. release_tags r = []) (support_releases s)"
    and "list_all (\<lambda>x. hotfix_tags x = []) (support_hotfixes s)"
    and "list_all (\<lambda>f. not_flag (feature_shadow f)) (support_features s)"
    and "list_all (\<lambda>r. not_flag (release_shadow r)) (support_releases s)"
    and "list_all (\<lambda>x. not_flag (hotfix_shadow x)) (support_hotfixes s)"
  shows "support_fields (validate_support (SupportBase_toHash s)) = support_fields s"
  by (simp add: support_fields_def validate_support_def SupportBase_toHash_def Let_def
      features_roundtrip[OF assms(1,4)] releases_roundtrip[OF assms(2,5)]
      hotfixes_roundtrip[OF assms(3,6)] del: map_map)

lemma submodules_roundtrip:
  assumes "list_all (\<lambda>s. not_flag (submodule_shadow s)) ss"
  shows "concat (map (submodule_fields stringify) (filter (\<lambda>i. not_flag (submodule_shadow i))
           (map validate_submodule (list_or_empty
              (nonempty (filter (\<lambda>i. not_flag (submodule_shadow i)) ss)
                 (map SubmoduleBase_toHash (filter (\<lambda>i. not_flag (submodule_shadow i)) ss))))))) =
         concat (map (submodule_fields stringify) (filter (\<lambda>i. not_flag (submodule_shadow i)) ss))"
proof -
  have v: "list_all (\<lambda>i. not_flag (submodule_shadow i)) (map validate_submodule ds)" for ds
    by (induction ds) (simp_all add: validate_submodule_def not_flag_def)
  have r: "list_all (\<lambda>x. submodule_fields stringify (validate_submodule (SubmoduleBase_toHash x)) =
      submodule_fields stringify x) ss"
    by (induction ss) (simp_all add: submodule_roundtrip)
  show ?thesis
    by (simp add: filter_all[OF assms] list_or_empty_nonempty filter_all[OF v]
        concat_map_roundtrip[of "submodule_fields stringify" validate_submodule SubmoduleBase_toHash ss, OF r]
        del: map_map)
qed

lemma supports_roundtrip:
  assumes "list_all (\<lambda>s. list_all (\<lambda>f. feature_tags f = []) (support_features s) \<and>
                     list_all (\<lambda>r. release_tags r = []) (support_releases s) \<and>
                     list_all (\<lambda>x. hotfix_tags x = []) (support_hotfixes s)) sps"
    and "list_all (\<lambda>s. list_all (\<lambda>f. not_flag (feature_shadow f)) (support_features s) \<and>
                     list_all (\<lambda>r. not_flag (release_shadow r)) (support_releases s) \<and>
                     list_all (\<lambda>x. not_flag (hotfix_shadow x)) (support_hotfixes s)) sps"
  shows "concat (map support_fields (map validate_support
           (list_or_empty (nonempty sps (map SupportBase_toHash sps))))) =
         concat (map support_fields sps)"
proof -
  have r: "list_all (\<lambda>x. support_fields (validate_support (SupportBase_toHash x)) = support_fields x) sps"
    using assms by (induction sps) (simp_all add: support_roundtrip)
  show ?thesis
    by (simp add: list_or_empty_nonempty
        concat_map_roundtrip[of support_fields validate_support SupportBase_toHash sps, OF r]
        del: map_map)
qed

lemma integrations_roundtrip:
  "concat (map (integration_fields stringify) (map validate_integration
     (list_or_empty (nonempty is (map IntegrationBase_toHash is))))) =
   concat (map (integration_fields stringify) is)"
proof -
  have r: "list_all (\<lambda>x. integration_fields stringify (validate_integration (IntegrationBase_toHash x)) =
      integration_fields stringify x) is"
    by (induction "is") (simp_all add: integration_roundtrip)
  show ?thesis
    by (simp add: list_or_empty_nonempty
        concat_map_roundtrip[of "integration_fields stringify" validate_integration
          IntegrationBase_toHash "is", OF r]
        del: map_map)
qed

lemma messageTemplates_roundtrip:
  "map validate_messageTemplate (list_or_empty (nonempty ts (map MessageTemplateBase_toHash ts))) = ts"
  by (simp add: list_or_empty_nonempty messageTemplate_roundtrip comp_def)

lemma tagTemplates_roundtrip:
  "map validate_tagTemplate (list_or_empty (nonempty ts (map TagTemplateBase_toHash ts))) = ts"
  by (simp add: list_or_empty_nonempty tagTemplate_roundtrip comp_def)

lemma dependencies_roundtrip:
  "list_or_empty (case ds of None \<Rightarrow> None | Some xs \<Rightarrow> nonempty xs xs) = list_or_empty ds"
  by (simp add: list_or_empty_def nonempty_def split: option.splits)

lemma toHash_unstamped:
  "ConfigBase_toHash coerce False c = Inr d \<Longrightarrow>
   config_fields stringify (validate d) =
     opt (apiVersion c) @ identifier c @ (if managed c then [] else ''unmanaged'') @
     opt (developVersion c) @ opt (masterVersion c) @
     concat (map (\<lambda>u. upstream_name u @ upstream_url u) (upstreams c)) @
     concat (included c) @ concat (excluded c) @
     concat (map (submodule_fields stringify) (filter (\<lambda>i. not_flag (submodule_shadow i))
           (map validate_submodule (list_or_empty
              (nonempty (filter (\<lambda>i. not_flag (submodule_shadow i)) (submodules c))
                 (map SubmoduleBase_toHash (filter (\<lambda>i. not_flag (submodule_shadow i)) (submodules c)))))))) @
     concat (map feature_fields (filter (\<lambda>i. not_flag (feature_shadow i))
           (map validate_feature (list_or_empty
              (nonempty (filter (\<lambda>i. not_flag (feature_shadow i)) (features c))
                 (map FeatureBase_toHash (filter (\<lambda>i. not_flag (feature_shadow i)) (features c)))))))) @
     concat (map release_fields (filter (\<lambda>i. not_flag (release_shadow i))
           (map validate_release (list_or_empty
              (nonempty (filter (\<lambda>i. not_flag (release_shadow i)) (releases c))
                 (map ReleaseBase_toHash (filter (\<lambda>i. not_flag (release_shadow i)) (releases c)))))))) @
     concat (map hotfix_fields (filter (\<lambda>i. not_flag (hotfix_shadow i))
           (map validate_hotfix (list_or_empty
              (nonempty (filter (\<lambda>i. not_flag (hotfix_shadow i)) (hotfixes c))
                 (map HotfixBase_toHash (filter (\<lambda>i. not_flag (hotfix_shadow i)) (hotfixes c)))))))) @
     concat (map support_fields (map validate_support
           (list_or_empty (nonempty (supports c) (map SupportBase_toHash (supports c)))))) @
     opt (featureMessageTemplate c) @ opt (releaseMessageTemplate c) @
     opt (hotfixMessageTemplate c) @ opt (releaseTagTemplate c) @ opt (hotfixTagTemplate c) @
     concat (tags c) @
     concat (map (integration_fields stringify) (map validate_integration
       (list_or_empty (nonempty (integrations c) (map IntegrationBase_toHash (integrations c)))))) @
     concat (map messageTemplate_fields (commitMessageTemplates c)) @
     concat (map tagTemplate_fields (tagTemplates c)) @
     opt (masterBranchName c) @ opt (developBranchName c) @
     concat (map (\<lambda>d. stringify (json_of_dependency d)) (list_or_empty (dependencies c))) @
     record_fields stringify (labels c) @ record_fields stringify (annotations c)"
  by (auto simp add: ConfigBase_toHash_def Let_def config_fields_def validate_def
      list_or_empty_nonempty_id messageTemplates_roundtrip tagTemplates_roundtrip
      dependencies_roundtrip simp del: map_map)

lemma roundtrip_without_tags:
  assumes "untagged c" and "unshadowed c" and "ConfigBase_toHash coerce False c = Inr d"
  shows "calculateHash crypto stringify algorithm encoding (validate d) =
         calculateHash crypto stringify algorithm encoding c"
proof -
  have "config_fields stringify (validate d) = config_fields stringify c"
    unfolding toHash_unstamped[OF assms(3)]
    using assms(1,2)
    by (simp add: untagged_def unshadowed_def config_fields_def submodules_roundtrip
        features_roundtrip releases_roundtrip hotfixes_roundtrip supports_roundtrip
        integrations_roundtrip del: map_map)
  then show ?thesis
    by (simp add: calculateHash_def ConfigBase_updateHash_fields)
qed

text \<open>
  C1. The round trip fails on a tree without shadow entries whose feature carries a tag:
  the canonical document has no tags, so the re-validated tree feeds fewer bytes than the
  original. By \<open>roundtrip_without_tags\<close> the law holds for every tree in which no
  Feature, Release or Hotfix is tagged.
\<close>

theorem roundtrip_drops_feature_tags:
  "(case ConfigBase_toHash coerce False tagged_config of
      Inl e \<Rightarrow> False
    | Inr d \<Rightarrow> ConfigBase_updateHash stringify (validate d) createHash = ''repologinfeature/loginabc123'')
 \<and> ConfigBase_updateHash stringify tagged_config createHash = ''repologinfeature/loginabc123beta''"
  by (simp add: ConfigBase_updateHash_fields createHash_def tagged_config_def config_fields_def
      bare_config_def opt_def record_fields_def list_or_empty_def ConfigBase_toHash_def
      nonempty_def validate_def login_feature_def not_flag_def FeatureBase_toHash_def
      validate_feature_def feature_fields_def tagging_fields_def)

text \<open>
  C9. The canonical serialization of a Feature has name, branchName, sourceSha, version
  and upstream and no tags, so it is the same whatever tags the Feature carries; the hash
  of the Feature is fed these fields and then the name and annotation of every tag, so a
  Feature with a named tag is hashed differently from the same Feature without tags.
\<close>

theorem feature_tags_not_serialized:
  "FeatureBase_toHash f =
     \<lparr>doc_feature_name = feature_name f, doc_feature_branchName = feature_branchName f,
      doc_feature_sourceSha = feature_sourceSha f, doc_feature_version = feature_version f,
      doc_feature_upstream = feature_upstream f, doc_feature_tags = None\<rparr>
 \<and> FeatureBase_toHash (f\<lparr>feature_tags := ts\<rparr>) = FeatureBase_toHash f
 \<and> FeatureBase_updateHash f h =
      h @ feature_name f @ feature_branchName f @ feature_sourceSha f @
      opt (feature_version f) @ opt (feature_upstream f) @
      concat (map (\<lambda>t. tagging_name t @ opt (tagging_annotation t)) (feature_tags f))
 \<and> (t \<in> set (feature_tags f) \<and> tagging_name t \<noteq> [] \<longrightarrow>
      FeatureBase_updateHash f h \<noteq> FeatureBase_updateHash (f\<lparr>feature_tags := []\<rparr>) h)"
proof (intro conjI impI)
  show "FeatureBase_toHash f =
     \<lparr>doc_feature_name = feature_name f, doc_feature_branchName = feature_branchName f,
      doc_feature_sourceSha = feature_sourceSha f, doc_feature_version = feature_version f,
      doc_feature_upstream = feature_upstream f, doc_feature_tags = None\<rparr>"
    by (simp add: FeatureBase_toHash_def)
  show "FeatureBase_toHash (f\<lparr>feature_tags := ts\<rparr>) = FeatureBase_toHash f"
    by (simp add: FeatureBase_toHash_def)
  show bytes: "FeatureBase_updateHash f h =
      h @ feature_name f @ feature_branchName f @ feature_sourceSha f @
      opt (feature_version f) @ opt (feature_upstream f) @
      concat (map (\<lambda>t. tagging_name t @ opt (tagging_annotation t)) (feature_tags f))" for f
  proof -
    have "tagging_fields = (\<lambda>t. tagging_name t @ opt (tagging_annotation t))"
      by (rule ext) (simp add: tagging_fields_def)
    then show ?thesis
      by (simp add: FeatureBase_updateHash_fields feature_fields_def)
  qed
  assume a: "t \<in> set (feature_tags f) \<and> tagging_name t \<noteq> []"
  then have "concat (map (\<lambda>t. tagging_name t @ opt (tagging_annotation t)) (feature_tags f)) \<noteq> []"
    by auto
  then show "FeatureBase_updateHash f h \<noteq> FeatureBase_updateHash (f\<lparr>feature_tags := []\<rparr>) h"
    by (simp add: bytes)
qed

theorem feature_tags_not_serialized_witness:
  "FeatureBase_updateHash login_feature createHash = ''loginfeature/loginabc123beta''
 \<and> FeatureBase_updateHash login_feature createHash \<noteq>
    FeatureBase_updateHash (login_feature\<lparr>feature_tags := []\<rparr>) createHash
 \<and> FeatureBase_toHash login_feature = FeatureBase_toHash (login_feature\<lparr>feature_tags := []\<rparr>)"
proof -
  let ?t = "\<lparr>tagging_name = ''beta'', tagging_annotation = None\<rparr>"
  have m: "?t \<in> set (feature_tags login_feature) \<and> tagging_name ?t \<noteq> []"
    by (simp add: login_feature_def)
  note th = feature_tags_not_serialized[where f = login_feature and t = ?t and h = createHash
      and ts = "[]"]
  have b: "FeatureBase_updateHash login_feature createHash = ''loginfeature/loginabc123beta''"
    using th by (simp add: login_feature_def opt_def createHash_def)
  have n: "FeatureBase_updateHash login_feature createHash \<noteq>
    FeatureBase_updateHash (login_feature\<lparr>feature_tags := []\<rparr>) createHash"
    using th m by blast
  have s: "FeatureBase_toHash login_feature = FeatureBase_toHash (login_feature\<lparr>feature_tags := []\<rparr>)"
    using th by simp
  from b n s show ?thesis by simp
qed

subsection \<open>Version resolver\<close>

text \<open>
  C7 (amended). For a Config and for a Support, \<open>resolveVersion\<close> selects masterVersion
  for \<open>master\<close> and developVersion otherwise (also when the argument is left out). It
  returns nothing when the selected field is absent or the empty string; it returns the
  cleaned version when the cleaner accepts the field; it fails with an error whose message
  carries the raw string when the field is non-empty and the cleaner rejects it.
\<close>

theorem resolveVersion_cases:
  "(selected = (if type = Some master then masterVersion c else developVersion c) \<longrightarrow>
     (selected = None \<or> selected = Some [] \<longrightarrow> ConfigBase_resolveVersion clean c type = Inr None)
   \<and> (selected = Some v \<and> v \<noteq> [] \<and> clean v = Some n \<and> n \<noteq> [] \<longrightarrow>
        ConfigBase_resolveVersion clean c type = Inr (Some n))
   \<and> (selected = Some v \<and> v \<noteq> [] \<and> clean v = None \<longrightarrow>
        ConfigBase_resolveVersion clean c type =
          Inl (Error (''Version '' @ [CHR 0x22] @ v @ [CHR 0x22] @ '' is not a valid semver format''))))
 \<and> (selected' = (if type = Some master then support_masterVersion s else support_developVersion s) \<longrightarrow>
     (selected' = None \<or> selected' = Some [] \<longrightarrow> SupportBase_resolveVersion clean s type = Inr None)
   \<and> (selected' = Some v \<and> v \<noteq> [] \<and> clean v = Some n \<and> n \<noteq> [] \<longrightarrow>
        SupportBase_resolveVersion clean s type = Inr (Some n))
   \<and> (selected' = Some v \<and> v \<noteq> [] \<and> clean v = None \<longrightarrow>
        SupportBase_resolveVersion clean s type =
          Inl (Error (''Version '' @ [CHR 0x22] @ v @ [CHR 0x22] @ '' is not a valid semver format''))))"
  by (cases type; cases "the type")
    (auto simp: ConfigBase_resolveVersion_def SupportBase_resolveVersion_def resolve_current_def
      version_error_def)

theorem resolveVersion_cases_witness:
  "ConfigBase_resolveVersion known_versions ((bare_config ''repo'')\<lparr>developVersion := Some ''1.2.3''\<rparr>) None
     = Inr (Some ''1.2.3'')
 \<and> ConfigBase_resolveVersion known_versions ((bare_config ''repo'')\<lparr>developVersion := Some ''  v1.2.3  ''\<rparr>)
     (Some develop) = Inr (Some ''1.2.3'')
 \<and> ConfigBase_resolveVersion known_versions ((bare_config ''repo'')\<lparr>developVersion := Some ''garbage''\<rparr>)
     (Some develop) = Inl (Error (''Version '' @ [CHR 0x22] @ ''garbage'' @ [CHR 0x22] @ '' is not a valid semver format''))
 \<and> ConfigBase_resolveVersion known_versions (bare_config ''repo'') (Some master) = Inr None"
proof -
  let ?c1 = "(bare_config ''repo'')\<lparr>developVersion := Some ''1.2.3''\<rparr>"
  let ?c2 = "(bare_config ''repo'')\<lparr>developVersion := Some ''  v1.2.3  ''\<rparr>"
  let ?c3 = "(bare_config ''repo'')\<lparr>developVersion := Some ''garbage''\<rparr>"
  have s1: "Some ''1.2.3'' = (if None = Some master then masterVersion ?c1 else developVersion ?c1)"
    and k1: "known_versions ''1.2.3'' = Some ''1.2.3''"
    by (simp_all add: known_versions_def)
  have s2: "Some ''  v1.2.3  '' = (if Some develop = Some master then masterVersion ?c2 else developVersion ?c2)"
    and k2: "known_versions ''  v1.2.3  '' = Some ''1.2.3''"
    by (simp_all add: known_versions_def)
  have s3: "Some ''garbage'' = (if Some develop = Some master then masterVersion ?c3 else developVersion ?c3)"
    and k3: "known_versions ''garbage'' = None"
    by (simp_all add: known_versions_def)
  have s4: "None = (if Some master = Some master then masterVersion (bare_config ''repo'')
      else developVersion (bare_config ''repo''))"
    by (simp add: bare_config_def)
  from resolveVersion_cases[where selected = "Some ''1.2.3''" and type = None and c = ?c1
      and v = "''1.2.3''" and clean = known_versions and n = "''1.2.3''"] s1 k1
  have c1: "ConfigBase_resolveVersion known_versions ?c1 None = Inr (Some ''1.2.3'')" by simp
  from resolveVersion_cases[where selected = "Some ''  v1.2.3  ''" and type = "Some develop" and c = ?c2
      and v = "''  v1.2.3  ''" and clean = known_versions and n = "''1.2.3''"] s2 k2
  have c2: "ConfigBase_resolveVersion known_versions ?c2 (Some develop) = Inr (Some ''1.2.3'')" by simp
  from resolveVersion_cases[where selected = "Some ''garbage''" and type = "Some develop" and c = ?c3
      and v = "''garbage''" and clean = known_versions] s3 k3
  have c3: "ConfigBase_resolveVersion known_versions ?c3 (Some develop) =
      Inl (Error (''Version '' @ [CHR 0x22] @ ''garbage'' @ [CHR 0x22] @ '' is not a valid semver format''))"
    by simp
  from resolveVersion_cases[where selected = None and type = "Some master"
      and c = "bare_config ''repo''" and clean = known_versions] s4
  have c4: "ConfigBase_resolveVersion known_versions (bare_config ''repo'') (Some master) = Inr None"
    by simp
  from c1 c2 c3 c4 show ?thesis by simp
qed

text \<open>
  A developVersion that is present and empty is not parsable, and \<open>resolveVersion\<close>
  returns nothing instead of failing.
\<close>

theorem empty_version_counterexample:
  "developVersion ((bare_config ''repo'')\<lparr>developVersion := Some ''''\<rparr>) = Some ''''
 \<and> known_versions '''' = None
 \<and> ConfigBase_resolveVersion known_versions ((bare_config ''repo'')\<lparr>developVersion := Some ''''\<rparr>)
      (Some develop) = Inr None"
  by (simp add: ConfigBase_resolveVersion_def resolve_current_def known_versions_def)

end
